theory Spec2Isabelle
  imports Main "HOL-Library.Sublist" "HOL-Library.AList"
begin

section \<open>Paths and strings\<close>

text \<open>
  The program is \<^verbatim>\<open>met.py\<close>: a metadata cleaner (class \<^verbatim>\<open>MetadataCleaner\<close>) and the
  watchdog event handler that drives it (class \<^verbatim>\<open>MetadataEventHandler\<close>).
  Paths are Python strings; the model takes them as \<^typ>\<open>string\<close> and follows the POSIX
  flavour of \<^verbatim>\<open>os.path\<close> (separator \<^verbatim>\<open>/\<close>, extension separator \<^verbatim>\<open>.\<close>).
  Calls of the logger change nothing that the program reads back; they are left out.
\<close>

type_synonym path = string

text \<open>\<^verbatim>\<open>str.lower()\<close> on the ASCII letters; every other character is kept.\<close>

definition lower_char :: "char \<Rightarrow> char" where
  "lower_char c =
     (case map_of (zip ''ABCDEFGHIJKLMNOPQRSTUVWXYZ'' ''abcdefghijklmnopqrstuvwxyz'') c of
        Some d \<Rightarrow> d
      | None \<Rightarrow> c)"

definition lower :: "string \<Rightarrow> string" where
  "lower s = map lower_char s"

text \<open>
  \<^verbatim>\<open>os.path.basename(p)\<close>: \<^verbatim>\<open>i = p.rfind('/') + 1; return p[i:]\<close>, the part after the
  last separator.
\<close>

definition basename :: "path \<Rightarrow> string" where
  "basename p = rev (takeWhile (\<lambda>c. c \<noteq> CHR ''/'') (rev p))"

text \<open>
  \<^verbatim>\<open>os.path.join(a, b)\<close> with two arguments: an absolute \<^verbatim>\<open>b\<close> replaces \<^verbatim>\<open>a\<close>; otherwise
  \<^verbatim>\<open>b\<close> is appended, with a separator unless \<^verbatim>\<open>a\<close> is empty or already ends with one.
\<close>

definition join :: "path \<Rightarrow> string \<Rightarrow> path" where
  "join a b =
     (if b \<noteq> [] \<and> hd b = CHR ''/'' then b
      else if a = [] \<or> last a = CHR ''/'' then a @ b
      else a @ ''/'' @ b)"

text \<open>
  \<^verbatim>\<open>os.path.splitext(p)[1]\<close>: the text from the last dot of the base name on, provided
  some character before that dot, within the base name, is not a dot; otherwise the
  empty string (\<^verbatim>\<open>.bashrc\<close> and \<^verbatim>\<open>..pdf\<close> have no extension).
\<close>

definition splitext_ext :: "path \<Rightarrow> string" where
  "splitext_ext p =
     (let name = basename p;
          tail = rev (takeWhile (\<lambda>c. c \<noteq> CHR ''.'') (rev name));
          stem = take (length name - length tail - 1) name
      in if CHR ''.'' \<in> set name \<and> filter (\<lambda>c. c \<noteq> CHR ''.'') stem \<noteq> []
         then CHR ''.'' # tail else [])"

text \<open>The expression \<^verbatim>\<open>os.path.splitext(file_path)[1].lower()\<close> of the source.\<close>

definition extension_of :: "path \<Rightarrow> string" where
  "extension_of file_path = lower (splitext_ext file_path)"

text \<open>
  Python's \<^verbatim>\<open>needle in haystack\<close> on strings: \<^verbatim>\<open>needle\<close> occurs as a contiguous
  substring.
\<close>

fun str_contains :: "string \<Rightarrow> string \<Rightarrow> bool" where
  "str_contains needle [] = (needle = [])"
| "str_contains needle (c # cs) = (prefix needle (c # cs) \<or> str_contains needle cs)"

section \<open>The staging file of a redaction\<close>

text \<open>
  Lines 211--212 of \<^verbatim>\<open>clean_metadata\<close>:
  \<^verbatim>\<open>filename = os.path.basename(file_path)\<close>,
  \<^verbatim>\<open>temp_file = os.path.join(self.temp_folder, filename)\<close>.
\<close>

definition temp_file_of :: "path \<Rightarrow> path \<Rightarrow> path" where
  "temp_file_of temp_folder file_path = join temp_folder (basename file_path)"

section \<open>Python values, exceptions and the world\<close>

text \<open>
  Exceptions are values. Every constructor stands for a subclass of Python's
  \<^verbatim>\<open>Exception\<close>, so \<^verbatim>\<open>except Exception\<close> catches each of them. Asynchronous
  \<^verbatim>\<open>BaseException\<close>s (\<^verbatim>\<open>KeyboardInterrupt\<close>, \<^verbatim>\<open>SystemExit\<close>) are outside the model.
  \<^verbatim>\<open>TimeoutExpired\<close> is a subclass of \<^verbatim>\<open>subprocess.SubprocessError\<close>;
  \<^verbatim>\<open>FileNotFoundError\<close> and \<^verbatim>\<open>PermissionError\<close> are subclasses of \<^verbatim>\<open>OSError\<close>.
\<close>

datatype py_exn =
    FileNotFoundError | PermissionError | OSError
  | SubprocessError | TimeoutExpired
  | JSONDecodeError | ValueError | TypeError | KeyError | IndexError | AttributeError
  | OtherException string

text \<open>
  The Python values the program handles: what \<^verbatim>\<open>json.loads\<close> returns, and the keys and
  values of a metadata dictionary. A dictionary is an association list in insertion
  order. A float is kept as mantissa and decimal exponent; \<open>PObj\<close> is any other object
  (bytes, a tuple, a PIL rational), named by its \<^verbatim>\<open>repr\<close>.
\<close>

datatype pyval =
    PNone | PBool bool | PInt int | PFloat int int | PStr string
  | PList "pyval list" | PDict "(pyval \<times> pyval) list" | PObj string

type_synonym py_dict = "(pyval \<times> pyval) list"

text \<open>\<^verbatim>\<open>bool(v)\<close>, as in \<^verbatim>\<open>metadata[0] if metadata else {}\<close>.\<close>

fun truthy :: "pyval \<Rightarrow> bool" where
  "truthy PNone = False"
| "truthy (PBool b) = b"
| "truthy (PInt n) = (n \<noteq> 0)"
| "truthy (PFloat m e) = (m \<noteq> 0)"
| "truthy (PStr s) = (s \<noteq> [])"
| "truthy (PList xs) = (xs \<noteq> [])"
| "truthy (PDict kvs) = (kvs \<noteq> [])"
| "truthy (PObj r) = True"

text \<open>
  \<^verbatim>\<open>v[0]\<close>: the first element of a list or string, the value stored under the key
  \<^verbatim>\<open>0\<close> of a dictionary (\<^verbatim>\<open>KeyError\<close> when there is none, as for every dictionary
  read from JSON, whose keys are strings), \<^verbatim>\<open>TypeError\<close> for a value that cannot be
  subscripted.
\<close>

fun subscript0 :: "pyval \<Rightarrow> py_exn + pyval" where
  "subscript0 (PList xs) = (case xs of [] \<Rightarrow> Inl IndexError | x # _ \<Rightarrow> Inr x)"
| "subscript0 (PStr s) = (case s of [] \<Rightarrow> Inl IndexError | ch # _ \<Rightarrow> Inr (PStr [ch]))"
| "subscript0 (PDict kvs) = (case map_of kvs (PInt 0) of None \<Rightarrow> Inl KeyError | Some v \<Rightarrow> Inr v)"
| "subscript0 PNone = Inl TypeError"
| "subscript0 (PBool b) = Inl TypeError"
| "subscript0 (PInt n) = Inl TypeError"
| "subscript0 (PFloat m e) = Inl TypeError"
| "subscript0 (PObj r) = Inl TypeError"

text \<open>\<^verbatim>\<open>v.items()\<close>: only a dictionary has the method.\<close>

fun items :: "pyval \<Rightarrow> py_exn + py_dict" where
  "items (PDict kvs) = Inr kvs"
| "items PNone = Inl AttributeError"
| "items (PBool b) = Inl AttributeError"
| "items (PInt n) = Inl AttributeError"
| "items (PFloat m e) = Inl AttributeError"
| "items (PStr s) = Inl AttributeError"
| "items (PList xs) = Inl AttributeError"
| "items (PObj r) = Inl AttributeError"

text \<open>
  The file system maps the path of a regular file to its content. The messages handed
  to \<^verbatim>\<open>send_telegram_message\<close> are kept as data (the source formats them with
  f-strings). The journal records, in order, what a run did that the properties
  below speak about: an inspection (\<^verbatim>\<open>has_metadata\<close> called from a handler), a redaction
  (\<^verbatim>\<open>clean_metadata\<close> called from a handler), a notification attempt, a sleep, and
  every exception at the point where it is raised.
\<close>

type_synonym filesystem = "path \<rightharpoonup> string"

datatype message =
    Monitor_started
  | New_file_with_metadata string string
  | Modified_file_with_metadata string string
  | Metadata_removed string
  | Removal_failed string

datatype action = Inspect path | Redact path | Notify message | Sleep nat | Raise py_exn

record world =
  files :: filesystem
  journal :: "action list"

text \<open>
  A computation takes the world and returns a value or a raised exception, with the
  world it leaves.
\<close>

type_synonym 'a io = "world \<Rightarrow> (py_exn + 'a) \<times> world"

definition ret :: "'a \<Rightarrow> 'a io" where
  "ret x = (\<lambda>w. (Inr x, w))"

text \<open>
  The outcome of an operation that may raise: the exception, when there is one, goes
  into the journal.
\<close>

definition lift :: "py_exn + 'a \<Rightarrow> 'a io" where
  "lift r = (\<lambda>w. case r of Inl e \<Rightarrow> (Inl e, w\<lparr>journal := journal w @ [Raise e]\<rparr>) | Inr x \<Rightarrow> (Inr x, w))"

definition bind :: "'a io \<Rightarrow> ('a \<Rightarrow> 'b io) \<Rightarrow> 'b io" where
  "bind m f = (\<lambda>w. case m w of (r, w') \<Rightarrow> (case r of Inl e \<Rightarrow> (Inl e, w') | Inr x \<Rightarrow> f x w'))"

text \<open>\<^verbatim>\<open>try: m except Exception as e: handler\<close>.\<close>

definition try_except :: "'a io \<Rightarrow> (py_exn \<Rightarrow> 'a io) \<Rightarrow> 'a io" where
  "try_except m handler =
     (\<lambda>w. case m w of (r, w') \<Rightarrow> (case r of Inl e \<Rightarrow> handler e w' | Inr x \<Rightarrow> (Inr x, w')))"

text \<open>\<^verbatim>\<open>try: m except (A, B) as e: handler\<close>: an exception outside the listed classes propagates.\<close>

definition try_except_only :: "(py_exn \<Rightarrow> bool) \<Rightarrow> 'a io \<Rightarrow> (py_exn \<Rightarrow> 'a io) \<Rightarrow> 'a io" where
  "try_except_only catches m handler =
     (\<lambda>w. case m w of (r, w') \<Rightarrow>
        (case r of Inl e \<Rightarrow> (if catches e then handler e w' else (Inl e, w')) | Inr x \<Rightarrow> (Inr x, w')))"

text \<open>An operation of the environment that reads and writes files.\<close>

definition on_files :: "(filesystem \<Rightarrow> (py_exn + 'a) \<times> filesystem) \<Rightarrow> 'a io" where
  "on_files f = (\<lambda>w. case f (files w) of (r, fs') \<Rightarrow> lift r (w\<lparr>files := fs'\<rparr>))"

definition emit :: "action \<Rightarrow> unit io" where
  "emit a = (\<lambda>w. (Inr (), w\<lparr>journal := journal w @ [a]\<rparr>))"

section \<open>The environment\<close>

text \<open>
  What the program calls and does not define: external processes, the JSON parser, the
  imaging library, the file moves of \<^verbatim>\<open>shutil\<close>, the HTTP client. Each is a parameter,
  free to raise and (where it touches files) to change the file system.
\<close>

record completed_process =
  returncode :: int
  stdout :: string
  stderr :: string

text \<open>
  An opened image: whether it has the method \<^verbatim>\<open>_getexif\<close>, what the method returns
  (or raises), and its \<^verbatim>\<open>info\<close> attribute.
\<close>

record pil_image =
  has_getexif :: bool
  getexif :: "py_exn + pyval"
  info :: pyval

record env =
  subprocess_run :: "string list \<Rightarrow> filesystem \<Rightarrow> (py_exn + completed_process) \<times> filesystem"
  json_loads :: "string \<Rightarrow> py_exn + pyval"
  image_open :: "path \<Rightarrow> filesystem \<Rightarrow> py_exn + pil_image"
  image_save_pixels :: "pil_image \<Rightarrow> path \<Rightarrow> filesystem \<Rightarrow> (py_exn + unit) \<times> filesystem"
  shutil_move :: "path \<Rightarrow> path \<Rightarrow> filesystem \<Rightarrow> (py_exn + unit) \<times> filesystem"
  tag_name :: "pyval \<Rightarrow> pyval"
  py_str :: "pyval \<Rightarrow> string"
  json_dumps :: "py_dict \<Rightarrow> py_exn + string"
  relpath :: "path \<Rightarrow> path \<Rightarrow> py_exn + string"
  requests_post :: "message \<Rightarrow> py_exn + int"
  abspath :: "path \<Rightarrow> path"
  makedirs :: "path \<Rightarrow> filesystem \<Rightarrow> (py_exn + unit) \<times> filesystem"

text \<open>\<^verbatim>\<open>subprocess.run(argv, capture_output=True, text=True, check=False)\<close>.\<close>

definition run :: "env \<Rightarrow> string list \<Rightarrow> completed_process io" where
  "run E argv = on_files (subprocess_run E argv)"

text \<open>\<^verbatim>\<open>shutil.move(src, dst)\<close>.\<close>

definition move :: "env \<Rightarrow> path \<Rightarrow> path \<Rightarrow> unit io" where
  "move E src dst = on_files (shutil_move E src dst)"

text \<open>\<^verbatim>\<open>Image.open(file_path)\<close>.\<close>

definition open_image :: "env \<Rightarrow> path \<Rightarrow> pil_image io" where
  "open_image E file_path = (\<lambda>w. lift (image_open E file_path (files w)) w)"

text \<open>
  Lines 264--266: a new image of the same mode and size, filled with the pixel data and
  saved at \<^verbatim>\<open>temp_file\<close>.
\<close>

definition save_pixels :: "env \<Rightarrow> pil_image \<Rightarrow> path \<Rightarrow> unit io" where
  "save_pixels E img temp_file = on_files (image_save_pixels E img temp_file)"

text \<open>\<^verbatim>\<open>os.path.exists(p)\<close>.\<close>

definition path_exists :: "path \<Rightarrow> world \<Rightarrow> bool" where
  "path_exists p w = (p \<in> dom (files w))"

section \<open>MetadataCleaner\<close>

text \<open>
  The fields of the object that decide its behaviour: \<^verbatim>\<open>folder_path\<close>,
  \<^verbatim>\<open>temp_folder\<close> and the dictionary \<^verbatim>\<open>available_tools\<close>.
\<close>

record metadata_cleaner =
  folder_path :: path
  temp_folder :: path
  available_tools :: "string \<rightharpoonup> bool"

text \<open>\<^verbatim>\<open>self.available_tools.get(name, False)\<close>.\<close>

definition tool_available :: "metadata_cleaner \<Rightarrow> string \<Rightarrow> bool" where
  "tool_available c name = (case available_tools c name of Some b \<Rightarrow> b | None \<Rightarrow> False)"

subsection \<open>\<^verbatim>\<open>_check_required_tools\<close> (lines 74--94)\<close>

text \<open>The classes of \<^verbatim>\<open>except (FileNotFoundError, subprocess.SubprocessError)\<close>.\<close>

definition probe_catches :: "py_exn \<Rightarrow> bool" where
  "probe_catches e = (e = FileNotFoundError \<or> e = SubprocessError \<or> e = TimeoutExpired)"

text \<open>
  One probe: the version query is run with \<^verbatim>\<open>check=False\<close> and its result is not looked
  at; the tool counts as present when the call returns.
\<close>

definition probe_tool :: "env \<Rightarrow> string list \<Rightarrow> bool io" where
  "probe_tool E argv =
     try_except_only probe_catches
       (bind (run E argv) (\<lambda>result. ret True))
       (\<lambda>e. ret False)"

text \<open>The value assigned to \<^verbatim>\<open>self.available_tools\<close>.\<close>

definition check_required_tools :: "env \<Rightarrow> (string \<rightharpoonup> bool) io" where
  "check_required_tools E =
     bind (probe_tool E [''exiftool'', ''-ver'']) (\<lambda>exiftool_ok.
     bind (probe_tool E [''qpdf'', ''--version'']) (\<lambda>qpdf_ok.
     ret [''exiftool'' \<mapsto> exiftool_ok, ''qpdf'' \<mapsto> qpdf_ok]))"

subsection \<open>\<^verbatim>\<open>send_telegram_message\<close> (lines 96--110)\<close>

definition send_telegram_message :: "env \<Rightarrow> message \<Rightarrow> bool io" where
  "send_telegram_message E msg =
     bind (emit (Notify msg)) (\<lambda>_.
     try_except
       (bind (lift (requests_post E msg)) (\<lambda>status_code. ret (status_code = 200)))
       (\<lambda>e. ret False))"

subsection \<open>\<^verbatim>\<open>__init__\<close> (lines 58--72)\<close>

text \<open>Line 65: the staging folder beneath the watched folder.\<close>

definition staging_folder :: "path \<Rightarrow> path" where
  "staging_folder root = join root ''_temp_metadata_cleaner''"

definition init_cleaner :: "env \<Rightarrow> path \<Rightarrow> metadata_cleaner io" where
  "init_cleaner E folder =
     (let root = abspath E folder;
          staging = staging_folder root
      in bind (on_files (makedirs E staging)) (\<lambda>_.
         bind (check_required_tools E) (\<lambda>tools.
         bind (send_telegram_message E Monitor_started) (\<lambda>_.
         ret \<lparr>folder_path = root, temp_folder = staging, available_tools = tools\<rparr>))))"

subsection \<open>\<^verbatim>\<open>get_metadata_with_exiftool\<close> (lines 112--141)\<close>

definition get_metadata_with_exiftool :: "env \<Rightarrow> metadata_cleaner \<Rightarrow> path \<Rightarrow> pyval io" where
  "get_metadata_with_exiftool E c file_path =
     (if \<not> tool_available c ''exiftool''
      then ret (PDict [(PStr ''error'', PStr ''ExifTool no disponible'')])
      else
        try_except
          (bind (run E [''exiftool'', ''-json'', file_path]) (\<lambda>result.
             if returncode result \<noteq> 0 then ret (PDict [])
             else
               bind (lift (json_loads E (stdout result))) (\<lambda>metadata.
               if truthy metadata then lift (subscript0 metadata) else ret (PDict []))))
          (\<lambda>e. ret (PDict [])))"

subsection \<open>\<^verbatim>\<open>has_metadata\<close> (lines 143--197)\<close>

definition excluded_fields :: "pyval list" where
  "excluded_fields =
     [PStr ''FileSize'', PStr ''FileName'', PStr ''FileType'', PStr ''MIMEType'',
      PStr ''ExifToolVersion'']"

definition image_extensions :: "string list" where
  "image_extensions = [''.jpg'', ''.jpeg'', ''.png'', ''.tiff'', ''.tif'', ''.webp'']"

definition document_extensions :: "string list" where
  "document_extensions = [''.pdf'', ''.docx'', ''.doc'', ''.pptx'', ''.xlsx'', ''.xls'']"

definition media_extensions :: "string list" where
  "media_extensions = [''.mp3'', ''.mp4'', ''.avi'', ''.mov'', ''.wav'']"

definition info_excluded :: "pyval list" where
  "info_excluded =
     [PStr ''dpi'', PStr ''jfif'', PStr ''jfif_version'', PStr ''jfif_unit'',
      PStr ''jfif_density'']"

text \<open>
  The dictionary comprehension of lines 160--161: the entries whose key is not an
  excluded field.
\<close>

definition filter_metadata :: "py_dict \<Rightarrow> py_dict" where
  "filter_metadata kvs = filter (\<lambda>kv. fst kv \<notin> set excluded_fields) kvs"

text \<open>
  Lines 169--179, inside \<^verbatim>\<open>with Image.open(file_path) as img\<close>: the EXIF entries under
  their tag names, then the entries of \<^verbatim>\<open>img.info\<close> outside the resolution hints, as
  strings. A PIL image always has the attribute \<^verbatim>\<open>info\<close>.
\<close>

definition read_exif :: "env \<Rightarrow> pil_image \<Rightarrow> py_dict io" where
  "read_exif E img =
     bind
       (if has_getexif img then
          bind (lift (getexif img)) (\<lambda>exif.
          if truthy exif then
            bind (lift (items exif)) (\<lambda>kvs.
            ret (fold (\<lambda>kv d. AList.update (tag_name E (fst kv)) (snd kv) d) kvs []))
          else ret [])
        else ret [])
       (\<lambda>exif_data.
          if truthy (info img) then
            bind (lift (items (info img))) (\<lambda>kvs.
            ret (fold (\<lambda>kv d. if fst kv \<notin> set info_excluded
                               then AList.update (fst kv) (PStr (py_str E (snd kv))) d else d)
                   kvs exif_data))
          else ret exif_data)"

text \<open>The body of the outer \<^verbatim>\<open>try\<close> (lines 154--194).\<close>

definition has_metadata_body :: "env \<Rightarrow> metadata_cleaner \<Rightarrow> path \<Rightarrow> (bool \<times> py_dict) io" where
  "has_metadata_body E c file_path =
     (let extension = extension_of file_path in
      if tool_available c ''exiftool'' then
        bind (get_metadata_with_exiftool E c file_path) (\<lambda>metadata.
        bind (lift (items metadata)) (\<lambda>kvs.
        ret (filter_metadata kvs \<noteq> [], filter_metadata kvs)))
      else if extension \<in> set image_extensions then
        try_except
          (bind (open_image E file_path) (\<lambda>img.
           bind (read_exif E img) (\<lambda>exif_data.
           ret (exif_data \<noteq> [], exif_data))))
          (\<lambda>e. ret (False, []))
      else if extension \<in> set document_extensions then
        ret (True, [(PStr ''warning'', PStr ''Archivo potencialmente con metadatos'')])
      else if extension \<in> set media_extensions then
        ret (True, [(PStr ''warning'', PStr ''Archivo multimedia potencialmente con metadatos'')])
      else ret (False, []))"

definition has_metadata :: "env \<Rightarrow> metadata_cleaner \<Rightarrow> path \<Rightarrow> (bool \<times> py_dict) io" where
  "has_metadata E c file_path =
     try_except (has_metadata_body E c file_path) (\<lambda>e. ret (False, []))"

subsection \<open>\<^verbatim>\<open>clean_metadata\<close> (lines 199--290)\<close>

text \<open>
  Lines 215--234. \<open>Some True\<close> is \<^verbatim>\<open>return True\<close>; \<open>None\<close> is falling through to the
  methods by file type: the tool is not available, it exited with a nonzero status, or
  the invocation or the move raised.
\<close>

definition exiftool_step :: "env \<Rightarrow> metadata_cleaner \<Rightarrow> path \<Rightarrow> path \<Rightarrow> bool option io" where
  "exiftool_step E c file_path temp_file =
     (if tool_available c ''exiftool'' then
        try_except
          (bind (run E [''exiftool'', ''-all='', ''-o'', temp_file, file_path]) (\<lambda>result.
             if returncode result \<noteq> 0 then ret None
             else bind (move E temp_file file_path) (\<lambda>_. ret (Some True))))
          (\<lambda>e. ret None)
      else ret None)"

text \<open>Lines 239--257, the branch for \<^verbatim>\<open>.pdf\<close>: qpdf rewrites the file in place.\<close>

definition pdf_step :: "env \<Rightarrow> metadata_cleaner \<Rightarrow> path \<Rightarrow> bool io" where
  "pdf_step E c file_path =
     bind
       (if tool_available c ''qpdf'' then
          try_except
            (bind (run E [''qpdf'', ''--linearize'', ''--replace-input'', file_path]) (\<lambda>result.
               ret (if returncode result = 0 then Some True else None)))
            (\<lambda>e. ret None)
        else ret None)
       (\<lambda>returned. case returned of Some b \<Rightarrow> ret b | None \<Rightarrow> ret False)"

text \<open>Lines 260--273, the branch for images.\<close>

definition image_step :: "env \<Rightarrow> path \<Rightarrow> path \<Rightarrow> bool io" where
  "image_step E file_path temp_file =
     try_except
       (bind (open_image E file_path) (\<lambda>img.
        bind (save_pixels E img temp_file) (\<lambda>_.
        bind (move E temp_file file_path) (\<lambda>_.
        ret True))))
       (\<lambda>e. ret False)"

text \<open>Lines 239--286: the methods by file type.\<close>

definition fallback_step :: "env \<Rightarrow> metadata_cleaner \<Rightarrow> path \<Rightarrow> string \<Rightarrow> path \<Rightarrow> bool io" where
  "fallback_step E c file_path extension temp_file =
     (if extension = ''.pdf'' then pdf_step E c file_path
      else if extension \<in> set image_extensions then image_step E file_path temp_file
      else if extension \<in> set [''.docx'', ''.xlsx'', ''.pptx''] then ret False
      else if extension \<in> set media_extensions then ret False
      else ret False)"

text \<open>The body of the outer \<^verbatim>\<open>try\<close> (lines 210--286).\<close>

definition clean_metadata_body :: "env \<Rightarrow> metadata_cleaner \<Rightarrow> path \<Rightarrow> bool io" where
  "clean_metadata_body E c file_path =
     (let extension = extension_of file_path;
          temp_file = temp_file_of (temp_folder c) file_path
      in bind (exiftool_step E c file_path temp_file) (\<lambda>returned.
         case returned of
           Some b \<Rightarrow> ret b
         | None \<Rightarrow> fallback_step E c file_path extension temp_file))"

definition clean_metadata :: "env \<Rightarrow> metadata_cleaner \<Rightarrow> path \<Rightarrow> bool io" where
  "clean_metadata E c file_path =
     try_except (clean_metadata_body E c file_path) (\<lambda>e. ret False)"

section \<open>MetadataEventHandler\<close>

text \<open>
  A watchdog event, and the handler object: the cleaner, a copy of its
  \<^verbatim>\<open>temp_folder\<close>, and the set \<^verbatim>\<open>recently_processed\<close> (lines 387--391).
\<close>

record event =
  src_path :: path
  is_directory :: bool

record event_handler =
  cleaner :: metadata_cleaner
  handler_temp_folder :: path
  recently_processed :: "path set"

definition new_handler :: "metadata_cleaner \<Rightarrow> event_handler" where
  "new_handler c =
     \<lparr>cleaner = c, handler_temp_folder = temp_folder c, recently_processed = {}\<rparr>"

text \<open>\<^verbatim>\<open>time.sleep(n)\<close> only leaves its mark in the journal.\<close>

definition sleep :: "nat \<Rightarrow> unit io" where
  "sleep n = emit (Sleep n)"

text \<open>
  \<^verbatim>\<open>metadata_str[:500] + "... [truncado]"\<close> when the text is longer than 500 characters.
\<close>

definition truncate_str :: "string \<Rightarrow> string" where
  "truncate_str s = (if length s > 500 then take 500 s @ ''... [truncado]'' else s)"

text \<open>
  Lines 409--434 of \<^verbatim>\<open>on_created\<close> and, word for word but for the headline of the first
  message, lines 463--488 of \<^verbatim>\<open>on_modified\<close>: inspect the file; when it has metadata,
  notify, redact, and notify the outcome. \<^verbatim>\<open>has_metadata\<close> returns a dictionary on
  every path, so \<^verbatim>\<open>isinstance(metadata, dict)\<close> holds and the text is
  \<^verbatim>\<open>json.dumps(custom_json_serializer(metadata), indent=2)\<close>.
\<close>

definition inspect_and_clean ::
    "env \<Rightarrow> metadata_cleaner \<Rightarrow> path \<Rightarrow> (string \<Rightarrow> string \<Rightarrow> message) \<Rightarrow> unit io" where
  "inspect_and_clean E c p headline =
     bind (emit (Inspect p)) (\<lambda>_.
     bind (has_metadata E c p) (\<lambda>found.
     if fst found then
       bind (lift (relpath E p (folder_path c))) (\<lambda>relative_path.
       bind (lift (json_dumps E (snd found))) (\<lambda>metadata_str.
       bind (send_telegram_message E (headline relative_path (truncate_str metadata_str))) (\<lambda>_.
       bind (emit (Redact p)) (\<lambda>_.
       bind (clean_metadata E c p) (\<lambda>cleaned.
       bind (send_telegram_message E
               (if cleaned then Metadata_removed relative_path
                else Removal_failed relative_path)) (\<lambda>_.
       ret ()))))))
     else ret ()))"

definition relevant_extensions :: "string list" where
  "relevant_extensions =
     [''.jpg'', ''.jpeg'', ''.png'', ''.pdf'', ''.docx'', ''.doc'',
      ''.pptx'', ''.xlsx'', ''.xls'', ''.mp3'', ''.mp4'', ''.avi'']"

text \<open>The \<^verbatim>\<open>try\<close> blocks: lines 407--434 and lines 457--488.\<close>

definition created_body :: "env \<Rightarrow> event_handler \<Rightarrow> event \<Rightarrow> unit io" where
  "created_body E h ev =
     (\<lambda>w. if path_exists (src_path ev) w
           then inspect_and_clean E (cleaner h) (src_path ev) New_file_with_metadata w
           else (Inr (), w))"

definition modified_body :: "env \<Rightarrow> event_handler \<Rightarrow> event \<Rightarrow> unit io" where
  "modified_body E h ev =
     (\<lambda>w. let file_ext = extension_of (src_path ev)
           in if path_exists (src_path ev) w \<and> file_ext \<in> set relevant_extensions
              then inspect_and_clean E (cleaner h) (src_path ev) Modified_file_with_metadata w
              else (Inr (), w))"

text \<open>
  \<^verbatim>\<open>self.recently_processed.add(event.src_path)\<close> (lines 402 and 452), and the removal
  in the \<^verbatim>\<open>finally\<close> blocks (lines 440--441 and 494--495).
\<close>

definition mark_pending :: "event_handler \<Rightarrow> event \<Rightarrow> event_handler" where
  "mark_pending h ev = h\<lparr>recently_processed := insert (src_path ev) (recently_processed h)\<rparr>"

definition release_pending :: "event_handler \<Rightarrow> event \<Rightarrow> event_handler" where
  "release_pending h ev = h\<lparr>recently_processed := recently_processed h - {src_path ev}\<rparr>"

text \<open>
  What a call does to the world between marking its path and releasing it. For a
  created file (lines 404--439): the grace sleep of one second, the \<^verbatim>\<open>try\<close> block with
  its \<^verbatim>\<open>except Exception\<close>, the sleep of four seconds. For a modified file
  (lines 454--493) there is no grace sleep.
\<close>

definition created_run :: "env \<Rightarrow> event_handler \<Rightarrow> event \<Rightarrow> world \<Rightarrow> world" where
  "created_run E h ev w =
     (let w1 = snd (sleep 1 w);
          w2 = snd (try_except (created_body E h ev) (\<lambda>e. ret ()) w1)
      in snd (sleep 4 w2))"

definition modified_run :: "env \<Rightarrow> event_handler \<Rightarrow> event \<Rightarrow> world \<Rightarrow> world" where
  "modified_run E h ev w =
     (let w2 = snd (try_except (modified_body E h ev) (\<lambda>e. ret ()) w)
      in snd (sleep 4 w2))"

text \<open>\<^verbatim>\<open>on_created\<close> (lines 393--441) and \<^verbatim>\<open>on_modified\<close> (lines 443--495).\<close>

definition on_created :: "env \<Rightarrow> event_handler \<Rightarrow> event \<Rightarrow> world \<Rightarrow> event_handler \<times> world" where
  "on_created E h ev w =
     (if is_directory ev \<or> str_contains (handler_temp_folder h) (src_path ev) then (h, w)
      else if src_path ev \<in> recently_processed h then (h, w)
      else
        let h1 = mark_pending h ev
        in (release_pending h1 ev, created_run E h1 ev w))"

definition on_modified :: "env \<Rightarrow> event_handler \<Rightarrow> event \<Rightarrow> world \<Rightarrow> event_handler \<times> world" where
  "on_modified E h ev w =
     (if is_directory ev \<or> str_contains (handler_temp_folder h) (src_path ev) then (h, w)
      else if src_path ev \<in> recently_processed h then (h, w)
      else
        let h1 = mark_pending h ev
        in (release_pending h1 ev, modified_run E h1 ev w))"

section \<open>Rapid-fire events\<close>

text \<open>
  The watch layer delivers an event by calling the handler method of its type.
\<close>

datatype event_type = Created | Modified

definition dispatch ::
    "env \<Rightarrow> event_handler \<Rightarrow> event_type \<times> event \<Rightarrow> world \<Rightarrow> event_handler \<times> world" where
  "dispatch E h x w =
     (case fst x of Created \<Rightarrow> on_created E h (snd x) w | Modified \<Rightarrow> on_modified E h (snd x) w)"

fun dispatch_all ::
    "env \<Rightarrow> (event_type \<times> event) list \<Rightarrow> event_handler \<times> world \<Rightarrow> event_handler \<times> world" where
  "dispatch_all E [] hw = hw"
| "dispatch_all E (x # xs) hw = dispatch_all E xs (dispatch E (fst hw) x (snd hw))"

text \<open>
  A burst: the call for the first event has passed both guards and marked its path;
  while it is still before its \<^verbatim>\<open>finally\<close> block, the watch layer delivers the other
  events, each as a whole handler call; then the first call does its work and releases
  its path. With no other event the burst is the handler call itself.
\<close>

definition passes_guards :: "event_handler \<Rightarrow> event \<Rightarrow> bool" where
  "passes_guards h ev =
     (\<not> (is_directory ev \<or> str_contains (handler_temp_folder h) (src_path ev))
      \<and> src_path ev \<notin> recently_processed h)"

definition run_of :: "env \<Rightarrow> event_type \<Rightarrow> event_handler \<Rightarrow> event \<Rightarrow> world \<Rightarrow> world" where
  "run_of E ty h ev w = (case ty of Created \<Rightarrow> created_run E h ev w | Modified \<Rightarrow> modified_run E h ev w)"

definition burst ::
    "env \<Rightarrow> event_handler \<Rightarrow> event_type \<times> event \<Rightarrow> (event_type \<times> event) list \<Rightarrow> world
      \<Rightarrow> event_handler \<times> world" where
  "burst E h first others w =
     (if passes_guards h (snd first) then
        let h1 = mark_pending h (snd first);
            hw = dispatch_all E others (h1, w)
        in (release_pending (fst hw) (snd first), run_of E (fst first) (fst hw) (snd first) (snd hw))
      else dispatch_all E others (h, w))"

text \<open>How often the journal records an inspection of a path.\<close>

definition inspections :: "path \<Rightarrow> world \<Rightarrow> nat" where
  "inspections p w = count_list (journal w) (Inspect p)"

text \<open>
  Whether the \<^verbatim>\<open>try\<close> block of a call inspects its file: the file exists and, for a
  modification, its extension is one of \<^verbatim>\<open>relevant_extensions\<close>.
\<close>

definition inspects :: "event_type \<Rightarrow> event \<Rightarrow> world \<Rightarrow> bool" where
  "inspects ty ev w =
     (case ty of
        Created \<Rightarrow> path_exists (src_path ev) w
      | Modified \<Rightarrow> path_exists (src_path ev) w
                     \<and> extension_of (src_path ev) \<in> set relevant_extensions)"

section \<open>Properties of computations\<close>

text \<open>
  \<open>tracked P m\<close>: the computation \<open>m\<close> adds to the journal only the exceptions raised
  while it runs; when it raises, it has added one; when it returns a value after an
  exception was raised and caught, the value satisfies \<open>P\<close>. \<open>total m\<close>: \<open>m\<close> never
  raises.
\<close>

definition tracked :: "('a \<Rightarrow> bool) \<Rightarrow> 'a io \<Rightarrow> bool" where
  "tracked P m =
     (\<forall>w. \<exists>es. journal (snd (m w)) = journal w @ map Raise es \<and>
        (case fst (m w) of Inl e \<Rightarrow> es \<noteq> [] | Inr x \<Rightarrow> es = [] \<or> P x))"

definition total :: "'a io \<Rightarrow> bool" where
  "total m = (\<forall>w. \<not> isl (fst (m w)))"

text \<open>\<open>silent p m\<close>: the computation \<open>m\<close> records no inspection of \<open>p\<close>.\<close>

definition silent :: "path \<Rightarrow> 'a io \<Rightarrow> bool" where
  "silent p m = (\<forall>w. inspections p (snd (m w)) = inspections p w)"

section \<open>What the collaborators are expected to do\<close>

text \<open>The invocation returned, and with exit status 0.\<close>

definition exited_zero :: "py_exn + completed_process \<Rightarrow> bool" where
  "exited_zero r = (case r of Inl e \<Rightarrow> False | Inr result \<Rightarrow> returncode result = 0)"

text \<open>
  The program decides what it asks of its collaborators; what they then do to the files
  is theirs. The statements about file contents assume that the operations aimed at the
  staging file keep to it: the stripping invocation
  \<^verbatim>\<open>exiftool -all= -o temp_file file_path\<close> and the saving of the pixel copy at
  \<^verbatim>\<open>temp_file\<close> leave the file at \<^verbatim>\<open>file_path\<close> as it is, and a
  \<^verbatim>\<open>shutil.move(temp_file, file_path)\<close> that raises has not changed its destination.
\<close>

definition staging_contract :: "env \<Rightarrow> path \<Rightarrow> path \<Rightarrow> bool" where
  "staging_contract E temp_file file_path =
     ((\<forall>fs. snd (subprocess_run E [''exiftool'', ''-all='', ''-o'', temp_file, file_path] fs) file_path
             = fs file_path)
      \<and> (\<forall>img fs. snd (image_save_pixels E img temp_file fs) file_path = fs file_path)
      \<and> (\<forall>fs. isl (fst (shutil_move E temp_file file_path fs)) \<longrightarrow>
                snd (shutil_move E temp_file file_path fs) file_path = fs file_path))"

text \<open>
  \<^verbatim>\<open>qpdf --linearize --replace-input file_path\<close> works on the file itself. The
  expectation: unless it exits with status 0, it has left its input as it was.
\<close>

definition qpdf_contract :: "env \<Rightarrow> path \<Rightarrow> bool" where
  "qpdf_contract E file_path =
     (\<forall>fs. \<not> exited_zero (fst (subprocess_run E [''qpdf'', ''--linearize'', ''--replace-input'', file_path] fs)) \<longrightarrow>
        snd (subprocess_run E [''qpdf'', ''--linearize'', ''--replace-input'', file_path] fs) file_path
          = fs file_path)"

text \<open>
  Two ways for a file system to come about. \<open>staged_then_moved\<close>: the staging file was
  written (the stripping invocation exited with status 0, or the pixel copy was saved)
  and then moved onto the original by a move that succeeded. \<open>rewritten_in_place\<close>:
  \<^verbatim>\<open>qpdf\<close> ran on the original and exited with status 0.
\<close>

definition staged_then_moved :: "env \<Rightarrow> path \<Rightarrow> path \<Rightarrow> filesystem \<Rightarrow> bool" where
  "staged_then_moved E temp_file file_path fs_end =
     (\<exists>fs0 fs1.
        ((exited_zero (fst (subprocess_run E [''exiftool'', ''-all='', ''-o'', temp_file, file_path] fs0))
          \<and> snd (subprocess_run E [''exiftool'', ''-all='', ''-o'', temp_file, file_path] fs0) = fs1)
         \<or> (\<exists>img. image_save_pixels E img temp_file fs0 = (Inr (), fs1)))
        \<and> shutil_move E temp_file file_path fs1 = (Inr (), fs_end))"

definition rewritten_in_place :: "env \<Rightarrow> path \<Rightarrow> filesystem \<Rightarrow> bool" where
  "rewritten_in_place E file_path fs_end =
     (\<exists>fs0. exited_zero (fst (subprocess_run E [''qpdf'', ''--linearize'', ''--replace-input'', file_path] fs0))
        \<and> snd (subprocess_run E [''qpdf'', ''--linearize'', ''--replace-input'', file_path] fs0) = fs_end)"

section \<open>Outcomes of the inspection tool\<close>

text \<open>
  What \<^verbatim>\<open>get_metadata_with_exiftool\<close> returns, as a function of the outcome of the
  invocation \<^verbatim>\<open>exiftool -json file_path\<close>.
\<close>

definition metadata_of_outcome :: "env \<Rightarrow> py_exn + completed_process \<Rightarrow> pyval" where
  "metadata_of_outcome E r =
     (case r of
        Inl e \<Rightarrow> PDict []
      | Inr result \<Rightarrow>
          if returncode result \<noteq> 0 then PDict []
          else (case json_loads E (stdout result) of
                  Inl e \<Rightarrow> PDict []
                | Inr metadata \<Rightarrow>
                    if truthy metadata
                    then (case subscript0 metadata of Inl e \<Rightarrow> PDict [] | Inr v \<Rightarrow> v)
                    else PDict []))"

text \<open>
  The invocation, or the parsing of its output, failed: the call raised, the tool
  exited with a nonzero status, the output is not JSON, or the parsed value has no first
  element that is a dictionary.
\<close>

definition exiftool_failed :: "env \<Rightarrow> py_exn + completed_process \<Rightarrow> bool" where
  "exiftool_failed E r =
     (case r of
        Inl e \<Rightarrow> True
      | Inr result \<Rightarrow>
          returncode result \<noteq> 0
          \<or> (case json_loads E (stdout result) of
                Inl e \<Rightarrow> True
              | Inr metadata \<Rightarrow>
                  truthy metadata
                  \<and> (case subscript0 metadata of Inl e \<Rightarrow> True | Inr v \<Rightarrow> isl (items v))))"

section \<open>Sample environments\<close>

text \<open>
  Concrete collaborators, to run the program on. A move that renames: it raises when
  the source is missing and otherwise puts the content under the destination.
\<close>

definition rename_file :: "path \<Rightarrow> path \<Rightarrow> filesystem \<Rightarrow> (py_exn + unit) \<times> filesystem" where
  "rename_file src dst fs =
     (case fs src of
        None \<Rightarrow> (Inl FileNotFoundError, fs)
      | Some content \<Rightarrow> (Inr (), (fs(src := None))(dst \<mapsto> content)))"

definition exits :: "int \<Rightarrow> string \<Rightarrow> completed_process" where
  "exits n out = \<lparr>returncode = n, stdout = out, stderr = []\<rparr>"

text \<open>
  External tools with chosen outcomes. \<^verbatim>\<open>exiftool\<close> raises the given exception or exits
  with the given status, printing the given text; on status 0 its stripping invocation
  \<^verbatim>\<open>exiftool -all= -o temp_file file_path\<close> writes the staging file. \<^verbatim>\<open>qpdf\<close> raises or
  exits with the given status; as the real tool does, it replaces its input on status 0
  and also on status 3 (it succeeded with warnings), and leaves it alone otherwise.
\<close>

fun strip_target :: "string list \<Rightarrow> path option" where
  "strip_target [tool, flag, opt, temp_file, file_path] =
     (if flag = ''-all='' \<and> opt = ''-o'' then Some temp_file else None)"
| "strip_target argv = None"

fun replace_target :: "string list \<Rightarrow> path option" where
  "replace_target [tool, flag, opt, file_path] =
     (if flag = ''--linearize'' \<and> opt = ''--replace-input'' then Some file_path else None)"
| "replace_target argv = None"

definition write_file :: "path option \<Rightarrow> string \<Rightarrow> filesystem \<Rightarrow> filesystem" where
  "write_file target content fs = (case target of None \<Rightarrow> fs | Some p \<Rightarrow> fs(p \<mapsto> content))"

definition sample_subprocess ::
    "py_exn + int \<Rightarrow> string \<Rightarrow> py_exn + int \<Rightarrow> string list \<Rightarrow> filesystem
      \<Rightarrow> (py_exn + completed_process) \<times> filesystem" where
  "sample_subprocess exiftool_outcome exiftool_stdout qpdf_outcome argv fs =
     (if take 1 argv = [''exiftool''] then
        (case exiftool_outcome of
           Inl e \<Rightarrow> (Inl e, fs)
         | Inr n \<Rightarrow>
             (Inr (exits n exiftool_stdout),
              if n = 0 then write_file (strip_target argv) ''stripped'' fs else fs))
      else
        (case qpdf_outcome of
           Inl e \<Rightarrow> (Inl e, fs)
         | Inr n \<Rightarrow>
             (Inr (exits n []),
              if n = 0 \<or> n = 3 then write_file (replace_target argv) ''linearized'' fs else fs)))"

text \<open>A JSON parser that knows three outputs of the tool and rejects every other text.\<close>

definition sample_json :: "string \<Rightarrow> py_exn + pyval" where
  "sample_json s =
     (if s = ''only structural fields''
      then Inr (PList [PDict [(PStr ''FileName'', PStr ''x.jpg''), (PStr ''FileSize'', PStr ''12 kB'')]])
      else if s = ''with a camera model''
      then Inr (PList [PDict [(PStr ''FileName'', PStr ''x.jpg''), (PStr ''Model'', PStr ''X100'')]])
      else if s = ''no entry'' then Inr (PList [])
      else Inl JSONDecodeError)"

definition sample_env :: "py_exn + int \<Rightarrow> string \<Rightarrow> py_exn + int \<Rightarrow> env" where
  "sample_env exiftool_outcome exiftool_stdout qpdf_outcome =
     \<lparr>subprocess_run = sample_subprocess exiftool_outcome exiftool_stdout qpdf_outcome,
      json_loads = sample_json,
      image_open = (\<lambda>p fs. Inl FileNotFoundError),
      image_save_pixels = (\<lambda>img p fs. (Inl OSError, fs)),
      shutil_move = rename_file,
      tag_name = (\<lambda>v. v),
      py_str = (\<lambda>v. []),
      json_dumps = (\<lambda>d. Inr ''{}''),
      relpath = (\<lambda>p start. Inr (basename p)),
      requests_post = (\<lambda>m. Inr 200),
      abspath = (\<lambda>p. p),
      makedirs = (\<lambda>p fs. (Inr (), fs))\<rparr>"

definition sample_cleaner :: "bool \<Rightarrow> bool \<Rightarrow> metadata_cleaner" where
  "sample_cleaner exiftool_ok qpdf_ok =
     \<lparr>folder_path = ''/w'',
      temp_folder = staging_folder ''/w'',
      available_tools = [''exiftool'' \<mapsto> exiftool_ok, ''qpdf'' \<mapsto> qpdf_ok]\<rparr>"

definition sample_world :: world where
  "sample_world =
     \<lparr>files = [''/w/a/report.pdf'' \<mapsto> ''original pdf'', ''/w/notes.txt'' \<mapsto> ''some notes'',
               ''/w/a/x.jpg'' \<mapsto> ''original jpg''],
      journal = []\<rparr>"

definition sample_event :: "path \<Rightarrow> event" where
  "sample_event p = \<lparr>src_path = p, is_directory = False\<rparr>"

section \<open>Facts about paths\<close>

lemma basename_no_sep: "CHR ''/'' \<notin> set (basename p)"
proof -
  have "\<forall>c \<in> set (takeWhile (\<lambda>c. c \<noteq> CHR ''/'') (rev p)). c \<noteq> CHR ''/''"
    by (auto dest: set_takeWhileD)
  then show ?thesis by (auto simp: basename_def)
qed

lemma join_relative:
  assumes "CHR ''/'' \<notin> set b"
  shows "join a b = (if a = [] \<or> last a = CHR ''/'' then a @ b else a @ ''/'' @ b)"
proof (cases b)
  case Nil
  then show ?thesis by (simp add: join_def)
next
  case (Cons c cs)
  with assms have "c \<noteq> CHR ''/''" by auto
  with Cons show ?thesis by (simp add: join_def)
qed

lemma join_inject:
  assumes "CHR ''/'' \<notin> set b1" and "CHR ''/'' \<notin> set b2"
  shows "join a b1 = join a b2 \<longleftrightarrow> b1 = b2"
  using assms by (simp add: join_relative)

lemma str_contains_prefix: "str_contains a (a @ b)"
proof (cases "a @ b")
  case Nil
  then show ?thesis by simp
next
  case (Cons x xs)
  have "prefix a (a @ b)" by simp
  then have "str_contains a (x # xs)" by (simp add: Cons)
  then show ?thesis by (simp add: Cons)
qed

section \<open>Facts about computations\<close>

subsection \<open>Running a computation\<close>

lemma bind_apply:
  "bind m f w = (case m w of (r, w') \<Rightarrow> (case r of Inl e \<Rightarrow> (Inl e, w') | Inr x \<Rightarrow> f x w'))"
  by (simp add: bind_def)

lemma try_except_apply:
  "try_except m handler w =
     (case m w of (r, w') \<Rightarrow> (case r of Inl e \<Rightarrow> handler e w' | Inr x \<Rightarrow> (Inr x, w')))"
  by (simp add: try_except_def)

lemma ret_apply: "ret x w = (Inr x, w)"
  by (simp add: ret_def)

lemma lift_Inr: "lift (Inr x) w = (Inr x, w)"
  by (simp add: lift_def)

lemma lift_Inl: "lift (Inl e) w = (Inl e, w\<lparr>journal := journal w @ [Raise e]\<rparr>)"
  by (simp add: lift_def)

lemma fst_lift: "fst (lift r w) = r"
  by (cases r) (simp_all add: lift_def)

lemma files_lift: "files (snd (lift r w)) = files w"
  by (cases r) (simp_all add: lift_def)

lemma bind_fst_snd:
  "bind m f w = (case fst (m w) of Inl e \<Rightarrow> (Inl e, snd (m w)) | Inr x \<Rightarrow> f x (snd (m w)))"
  by (cases "m w") (auto simp: bind_def split: sum.splits)

lemma try_fst_snd:
  "try_except m handler w =
     (case fst (m w) of Inl e \<Rightarrow> handler e (snd (m w)) | Inr x \<Rightarrow> (Inr x, snd (m w)))"
  by (cases "m w") (auto simp: try_except_def split: sum.splits)

lemma fst_on_files: "fst (on_files f w) = fst (f (files w))"
  by (simp add: on_files_def fst_lift split: prod.splits)

lemma files_on_files: "files (snd (on_files f w)) = snd (f (files w))"
  by (simp add: on_files_def files_lift split: prod.splits)

lemma fst_open_image: "fst (open_image E p w) = image_open E p (files w)"
  by (simp add: open_image_def fst_lift)

lemma files_open_image: "files (snd (open_image E p w)) = files w"
  by (simp add: open_image_def files_lift)

lemmas io_simps =
  bind_fst_snd try_fst_snd ret_apply run_def move_def save_pixels_def
  fst_on_files files_on_files fst_open_image files_open_image fst_lift files_lift

lemma snd_try_ret: "snd (try_except m (\<lambda>e. ret d) w) = snd (m w)"
  by (cases "fst (m w)") (simp_all add: try_fst_snd ret_apply)

lemma total_try: "total (try_except m (\<lambda>e. ret d))"
  by (simp add: total_def try_except_apply ret_apply split: prod.splits sum.splits)

subsection \<open>Exceptions in the journal\<close>

lemma tracked_ret: "tracked P (ret x)"
  by (simp add: tracked_def ret_def)

lemma tracked_lift: "tracked P (lift r)"
proof (cases r)
  case (Inl e)
  have "\<And>w. journal w @ [Raise e] = journal w @ map Raise [e] \<and> [e] \<noteq> []" by simp
  then show ?thesis unfolding tracked_def Inl lift_Inl by (auto intro: exI [of _ "[e]"])
next
  case (Inr x)
  then show ?thesis by (simp add: tracked_def lift_Inr)
qed

lemma tracked_on_files: "tracked P (on_files f)"
proof -
  have "\<exists>es. journal (snd (on_files f w)) = journal w @ map Raise es \<and>
        (case fst (on_files f w) of Inl e \<Rightarrow> es \<noteq> [] | Inr x \<Rightarrow> es = [] \<or> P x)" for w
  proof -
    obtain r fs' where f: "f (files w) = (r, fs')" by (cases "f (files w)")
    have t: "tracked P (lift r)" by (rule tracked_lift)
    from t [unfolded tracked_def, rule_format, of "w\<lparr>files := fs'\<rparr>"]
    show ?thesis by (simp add: on_files_def f)
  qed
  then show ?thesis by (simp add: tracked_def)
qed

lemma tracked_open_image: "tracked P (open_image E p)"
proof -
  have "\<exists>es. journal (snd (open_image E p w)) = journal w @ map Raise es \<and>
        (case fst (open_image E p w) of Inl e \<Rightarrow> es \<noteq> [] | Inr x \<Rightarrow> es = [] \<or> P x)" for w
    using tracked_lift [of P "image_open E p (files w)", unfolded tracked_def, rule_format, of w]
    by (simp add: open_image_def)
  then show ?thesis by (simp add: tracked_def)
qed

lemma tracked_weaken:
  assumes "tracked Q m" and "\<And>x. Q x \<Longrightarrow> P x"
  shows "tracked P m"
  unfolding tracked_def
proof
  fix w
  from assms(1) obtain es where es: "journal (snd (m w)) = journal w @ map Raise es"
      "case fst (m w) of Inl e \<Rightarrow> es \<noteq> [] | Inr x \<Rightarrow> es = [] \<or> Q x"
    unfolding tracked_def by blast
  from es(2) assms(2) have "case fst (m w) of Inl e \<Rightarrow> es \<noteq> [] | Inr x \<Rightarrow> es = [] \<or> P x"
    by (auto split: sum.splits)
  with es(1) show "\<exists>es. journal (snd (m w)) = journal w @ map Raise es \<and>
        (case fst (m w) of Inl e \<Rightarrow> es \<noteq> [] | Inr x \<Rightarrow> es = [] \<or> P x)" by blast
qed

lemma tracked_bind:
  assumes m: "tracked Q m"
    and f: "\<And>x. tracked P (f x)"
    and after: "\<And>x w y. Q x \<Longrightarrow> fst (f x w) = Inr y \<Longrightarrow> P y"
  shows "tracked P (bind m f)"
  unfolding tracked_def
proof
  fix w
  obtain r w1 where mw: "m w = (r, w1)" by (cases "m w")
  from m obtain es1 where es1: "journal w1 = journal w @ map Raise es1"
      "case r of Inl e \<Rightarrow> es1 \<noteq> [] | Inr x \<Rightarrow> es1 = [] \<or> Q x"
    unfolding tracked_def by (metis mw fst_conv snd_conv)
  show "\<exists>es. journal (snd (bind m f w)) = journal w @ map Raise es \<and>
        (case fst (bind m f w) of Inl e \<Rightarrow> es \<noteq> [] | Inr x \<Rightarrow> es = [] \<or> P x)"
  proof (cases r)
    case (Inl e)
    with es1 mw show ?thesis by (auto simp: bind_apply)
  next
    case (Inr x)
    from f [of x] obtain es2 where es2: "journal (snd (f x w1)) = journal w1 @ map Raise es2"
        "case fst (f x w1) of Inl e \<Rightarrow> es2 \<noteq> [] | Inr y \<Rightarrow> es2 = [] \<or> P y"
      unfolding tracked_def by blast
    have b: "bind m f w = f x w1" by (simp add: bind_apply mw Inr)
    have j: "journal (snd (bind m f w)) = journal w @ map Raise (es1 @ es2)"
      by (simp add: b es1(1) es2(1))
    have "case fst (f x w1) of Inl e \<Rightarrow> es1 @ es2 \<noteq> [] | Inr y \<Rightarrow> es1 @ es2 = [] \<or> P y"
    proof (cases "fst (f x w1)")
      case (Inl e)
      with es2(2) show ?thesis by simp
    next
      case (Inr y)
      show ?thesis
      proof (cases "es1 = []")
        case True
        with es2(2) Inr show ?thesis by simp
      next
        case False
        with es1(2) \<open>r = Inr x\<close> have "Q x" by simp
        from after [OF this Inr] Inr show ?thesis by simp
      qed
    qed
    with j b show ?thesis by (intro exI [of _ "es1 @ es2"]) simp
  qed
qed

lemma tracked_bind_honest:
  assumes "tracked (\<lambda>_. False) m" and "\<And>x. tracked P (f x)"
  shows "tracked P (bind m f)"
  using assms by (rule tracked_bind) simp

lemma tracked_try:
  assumes m: "tracked Q m" and d: "P d" and q: "\<And>x. Q x \<Longrightarrow> P x"
  shows "tracked P (try_except m (\<lambda>e. ret d))"
  unfolding tracked_def
proof
  fix w
  obtain r w1 where mw: "m w = (r, w1)" by (cases "m w")
  from m obtain es where es: "journal w1 = journal w @ map Raise es"
      "case r of Inl e \<Rightarrow> es \<noteq> [] | Inr x \<Rightarrow> es = [] \<or> Q x"
    unfolding tracked_def by (metis mw fst_conv snd_conv)
  have "case fst (try_except m (\<lambda>e. ret d) w) of Inl e \<Rightarrow> es \<noteq> [] | Inr x \<Rightarrow> es = [] \<or> P x"
    using es(2) d q by (cases r) (auto simp: try_except_apply mw ret_apply)
  moreover have "journal (snd (try_except m (\<lambda>e. ret d) w)) = journal w @ map Raise es"
    using es(1) by (cases r) (simp_all add: try_except_apply mw ret_apply)
  ultimately show "\<exists>es. journal (snd (try_except m (\<lambda>e. ret d) w)) = journal w @ map Raise es \<and>
        (case fst (try_except m (\<lambda>e. ret d) w) of Inl e \<Rightarrow> es \<noteq> [] | Inr x \<Rightarrow> es = [] \<or> P x)"
    by blast
qed

lemma tracked_if:
  assumes "b \<Longrightarrow> tracked P m1" and "\<not> b \<Longrightarrow> tracked P m2"
  shows "tracked P (if b then m1 else m2)"
  using assms by simp

lemma tracked_result:
  assumes "tracked (\<lambda>x. x = d) m" and "total m" and "journal (snd (m w)) \<noteq> journal w"
  shows "fst (m w) = Inr d"
proof -
  from assms(1) obtain es where es: "journal (snd (m w)) = journal w @ map Raise es"
      "case fst (m w) of Inl e \<Rightarrow> es \<noteq> [] | Inr x \<Rightarrow> es = [] \<or> x = d"
    unfolding tracked_def by blast
  from assms(2) obtain x where x: "fst (m w) = Inr x"
    unfolding total_def by (cases "fst (m w)") (auto dest: spec [of _ w])
  from es(1) assms(3) have "es \<noteq> []" by auto
  with es(2) x show ?thesis by simp
qed

lemma tracked_journal:
  assumes "tracked P m"
  shows "\<exists>es. journal (snd (m w)) = journal w @ map Raise es"
  using assms unfolding tracked_def by blast

lemma tracked_run: "tracked P (run E argv)"
  by (simp add: run_def tracked_on_files)

lemma tracked_move: "tracked P (move E a b)"
  by (simp add: move_def tracked_on_files)

lemma tracked_save_pixels: "tracked P (save_pixels E img t)"
  by (simp add: save_pixels_def tracked_on_files)

subsection \<open>Inspections in the journal\<close>

lemma count_raises: "count_list (map Raise es) (Inspect p) = 0"
  by (induction es) simp_all

lemma silent_tracked:
  assumes "tracked P m"
  shows "silent p m"
  unfolding silent_def inspections_def
proof
  fix w
  from tracked_journal [OF assms, of w] obtain es
    where "journal (snd (m w)) = journal w @ map Raise es" by blast
  then show "count_list (journal (snd (m w))) (Inspect p) = count_list (journal w) (Inspect p)"
    by (simp add: count_raises)
qed

lemma silent_ret: "silent p (ret x)"
  by (simp add: silent_def ret_apply)

lemma silent_lift: "silent p (lift r)"
  by (rule silent_tracked [OF tracked_lift [of "\<lambda>_. True"]])

lemma silent_emit:
  assumes "a \<noteq> Inspect p"
  shows "silent p (emit a)"
  using assms by (simp add: silent_def emit_def inspections_def)

lemma silent_bind:
  assumes "silent p m" and "\<And>x. silent p (f x)"
  shows "silent p (bind m f)"
  unfolding silent_def
proof
  fix w
  show "inspections p (snd (bind m f w)) = inspections p w"
  proof (cases "fst (m w)")
    case (Inl e)
    with assms(1) show ?thesis by (simp add: bind_fst_snd silent_def)
  next
    case (Inr x)
    with assms(1) assms(2) [of x] show ?thesis by (simp add: bind_fst_snd silent_def)
  qed
qed

lemma silent_try:
  assumes "silent p m" and "\<And>e. silent p (handler e)"
  shows "silent p (try_except m handler)"
  unfolding silent_def
proof
  fix w
  show "inspections p (snd (try_except m handler w)) = inspections p w"
  proof (cases "fst (m w)")
    case (Inl e)
    with assms(1) assms(2) [of e] show ?thesis by (simp add: try_fst_snd silent_def)
  next
    case (Inr x)
    with assms(1) show ?thesis by (simp add: try_fst_snd silent_def)
  qed
qed

lemma silent_if:
  assumes "b \<Longrightarrow> silent p m1" and "\<not> b \<Longrightarrow> silent p m2"
  shows "silent p (if b then m1 else m2)"
  using assms by simp

section \<open>Facts about the probe\<close>

lemma fst_probe_tool:
  "fst (probe_tool E argv w) =
     (case fst (subprocess_run E argv (files w)) of
        Inl e \<Rightarrow> if probe_catches e then Inr False else Inl e
      | Inr result \<Rightarrow> Inr True)"
  by (cases "fst (subprocess_run E argv (files w))")
     (simp_all add: probe_tool_def try_except_only_def io_simps split: prod.splits)

lemma files_probe_tool:
  "files (snd (probe_tool E argv w)) = snd (subprocess_run E argv (files w))"
  by (cases "fst (subprocess_run E argv (files w))")
     (simp_all add: probe_tool_def try_except_only_def io_simps split: prod.splits)

section \<open>Facts about the inspection\<close>

lemma get_metadata_tracked: "tracked (\<lambda>m. m = PDict []) (get_metadata_with_exiftool E c p)"
  unfolding get_metadata_with_exiftool_def
  by (auto intro!: tracked_ret tracked_try tracked_bind_honest tracked_run tracked_lift)

lemma read_exif_tracked: "tracked (\<lambda>_. False) (read_exif E img)"
  unfolding read_exif_def
  by (auto intro!: tracked_ret tracked_bind_honest tracked_lift)

lemma has_metadata_body_tracked:
  "tracked (\<lambda>x. x = (False, [])) (has_metadata_body E c p)"
  unfolding has_metadata_body_def Let_def
  by (auto intro!: tracked_ret tracked_try tracked_bind_honest tracked_lift tracked_open_image
        read_exif_tracked tracked_bind [OF get_metadata_tracked]
      simp: bind_apply ret_apply lift_Inr filter_metadata_def)

lemma has_metadata_tracked: "tracked (\<lambda>x. x = (False, [])) (has_metadata E c p)"
  unfolding has_metadata_def
  by (rule tracked_try [OF has_metadata_body_tracked]) simp_all

lemma get_metadata_fst:
  assumes "tool_available c ''exiftool''"
  shows "fst (get_metadata_with_exiftool E c p w)
           = Inr (metadata_of_outcome E (fst (subprocess_run E [''exiftool'', ''-json'', p] (files w))))"
  using assms
  by (cases "fst (subprocess_run E [''exiftool'', ''-json'', p] (files w))")
     (auto simp: get_metadata_with_exiftool_def metadata_of_outcome_def io_simps
           split: sum.splits)

lemma has_metadata_exiftool:
  assumes "tool_available c ''exiftool''"
    and "fst (get_metadata_with_exiftool E c p w) = Inr m"
  shows "fst (has_metadata E c p w) =
           (case items m of
              Inl e \<Rightarrow> Inr (False, [])
            | Inr kvs \<Rightarrow> Inr (filter_metadata kvs \<noteq> [], filter_metadata kvs))"
  using assms
  by (cases "items m") (simp_all add: has_metadata_def has_metadata_body_def io_simps)

lemma failed_outcome:
  assumes "exiftool_failed E r"
  shows "(case items (metadata_of_outcome E r) of Inl e \<Rightarrow> True | Inr kvs \<Rightarrow> kvs = [])"
  using assms
  by (auto simp: exiftool_failed_def metadata_of_outcome_def split: sum.splits)

section \<open>Facts about the redaction\<close>

subsection \<open>The original file\<close>

lemma exiftool_step_frame:
  assumes "staging_contract E t p"
  shows "fst (exiftool_step E c p t w) = Inr (Some True)
       \<or> (fst (exiftool_step E c p t w) = Inr None \<and> files (snd (exiftool_step E c p t w)) p = files w p)"
proof (cases "tool_available c ''exiftool''")
  case False
  then show ?thesis by (simp add: exiftool_step_def ret_apply)
next
  case True
  let ?argv = "[''exiftool'', ''-all='', ''-o'', t, p]"
  from assms have keep: "snd (subprocess_run E ?argv (files w)) p = files w p"
    and mv: "\<And>fs. isl (fst (shutil_move E t p fs)) \<Longrightarrow> snd (shutil_move E t p fs) p = fs p"
    by (simp_all add: staging_contract_def)
  show ?thesis
  proof (cases "fst (subprocess_run E ?argv (files w))")
    case (Inl e)
    with True keep show ?thesis by (simp add: exiftool_step_def io_simps)
  next
    case (Inr result)
    show ?thesis
    proof (cases "returncode result = 0")
      case False
      with True Inr keep show ?thesis by (simp add: exiftool_step_def io_simps)
    next
      case rc: True
      let ?fs1 = "snd (subprocess_run E ?argv (files w))"
      show ?thesis
      proof (cases "fst (shutil_move E t p ?fs1)")
        case (Inl e)
        then have "snd (shutil_move E t p ?fs1) p = ?fs1 p" by (intro mv) simp
        with True Inr rc Inl keep show ?thesis by (simp add: exiftool_step_def io_simps)
      next
        case (Inr u)
        with True \<open>fst (subprocess_run E ?argv (files w)) = Inr result\<close> rc show ?thesis
          by (simp add: exiftool_step_def io_simps)
      qed
    qed
  qed
qed

lemma pdf_step_frame:
  assumes "tool_available c ''qpdf'' \<Longrightarrow> qpdf_contract E p"
  shows "fst (pdf_step E c p w) = Inr True
       \<or> (fst (pdf_step E c p w) = Inr False \<and> files (snd (pdf_step E c p w)) p = files w p)"
proof (cases "tool_available c ''qpdf''")
  case False
  then show ?thesis by (simp add: pdf_step_def io_simps)
next
  case True
  let ?argv = "[''qpdf'', ''--linearize'', ''--replace-input'', p]"
  from assms [OF True] have q: "\<not> exited_zero (fst (subprocess_run E ?argv (files w))) \<Longrightarrow>
      snd (subprocess_run E ?argv (files w)) p = files w p"
    by (simp add: qpdf_contract_def)
  show ?thesis
    using q True
    by (cases "fst (subprocess_run E ?argv (files w))")
       (auto simp: pdf_step_def io_simps exited_zero_def)
qed

lemma image_step_frame:
  assumes "staging_contract E t p"
  shows "fst (image_step E p t w) = Inr True
       \<or> (fst (image_step E p t w) = Inr False \<and> files (snd (image_step E p t w)) p = files w p)"
proof -
  from assms have sv: "\<And>img fs. snd (image_save_pixels E img t fs) p = fs p"
    and mv: "\<And>fs. isl (fst (shutil_move E t p fs)) \<Longrightarrow> snd (shutil_move E t p fs) p = fs p"
    by (simp_all add: staging_contract_def)
  show ?thesis
  proof (cases "image_open E p (files w)")
    case (Inl e)
    then show ?thesis by (simp add: image_step_def io_simps)
  next
    case (Inr img)
    let ?fs1 = "snd (image_save_pixels E img t (files w))"
    show ?thesis
    proof (cases "fst (image_save_pixels E img t (files w))")
      case (Inl e)
      with Inr sv [of img "files w"] show ?thesis by (simp add: image_step_def io_simps)
    next
      case saved: (Inr u)
      show ?thesis
      proof (cases "fst (shutil_move E t p ?fs1)")
        case (Inl e)
        then have "snd (shutil_move E t p ?fs1) p = ?fs1 p" by (intro mv) simp
        with Inr saved Inl sv [of img "files w"] show ?thesis
          by (simp add: image_step_def io_simps)
      next
        case (Inr v)
        with \<open>image_open E p (files w) = Inr img\<close> saved show ?thesis
          by (simp add: image_step_def io_simps)
      qed
    qed
  qed
qed

lemma fallback_step_frame:
  assumes "staging_contract E t p"
    and "ext = ''.pdf'' \<Longrightarrow> tool_available c ''qpdf'' \<Longrightarrow> qpdf_contract E p"
  shows "fst (fallback_step E c p ext t w) = Inr True
       \<or> (fst (fallback_step E c p ext t w) = Inr False
          \<and> files (snd (fallback_step E c p ext t w)) p = files w p)"
proof (cases "ext = ''.pdf''")
  case True
  with assms(2) have "tool_available c ''qpdf'' \<Longrightarrow> qpdf_contract E p" by simp
  from pdf_step_frame [OF this] True show ?thesis by (simp add: fallback_step_def)
next
  case False
  show ?thesis
  proof (cases "ext \<in> set image_extensions")
    case True
    with False image_step_frame [OF assms(1)] show ?thesis by (simp add: fallback_step_def)
  next
    case no_image: False
    with False show ?thesis by (simp add: fallback_step_def ret_apply)
  qed
qed

lemma clean_metadata_body_frame:
  assumes "staging_contract E (temp_file_of (temp_folder c) p) p"
    and "extension_of p = ''.pdf'' \<Longrightarrow> tool_available c ''qpdf'' \<Longrightarrow> qpdf_contract E p"
  shows "fst (clean_metadata_body E c p w) = Inr True
       \<or> (fst (clean_metadata_body E c p w) = Inr False
          \<and> files (snd (clean_metadata_body E c p w)) p = files w p)"
proof -
  let ?t = "temp_file_of (temp_folder c) p"
  let ?w1 = "snd (exiftool_step E c p ?t w)"
  from exiftool_step_frame [OF assms(1), of c w]
  show ?thesis
  proof
    assume "fst (exiftool_step E c p ?t w) = Inr (Some True)"
    then show ?thesis by (simp add: clean_metadata_body_def Let_def io_simps)
  next
    assume a: "fst (exiftool_step E c p ?t w) = Inr None \<and> files ?w1 p = files w p"
    from fallback_step_frame [OF assms(1), of "extension_of p" c ?w1] assms(2) a
    show ?thesis by (auto simp: clean_metadata_body_def Let_def io_simps)
  qed
qed

subsection \<open>How a redaction succeeds\<close>

lemma total_exiftool_step: "fst (exiftool_step E c p t w) = Inr None \<or> fst (exiftool_step E c p t w) = Inr (Some True)"
  by (auto simp: exiftool_step_def io_simps split: sum.splits)

lemma exiftool_step_success:
  assumes "fst (exiftool_step E c p t w) = Inr (Some True)"
  shows "staged_then_moved E t p (files (snd (exiftool_step E c p t w)))"
proof -
  let ?argv = "[''exiftool'', ''-all='', ''-o'', t, p]"
  let ?fs1 = "snd (subprocess_run E ?argv (files w))"
  from assms have av: "tool_available c ''exiftool''"
    by (cases "tool_available c ''exiftool''") (simp_all add: exiftool_step_def ret_apply)
  from assms av have z: "exited_zero (fst (subprocess_run E ?argv (files w)))"
    by (cases "fst (subprocess_run E ?argv (files w))")
       (auto simp: exiftool_step_def io_simps exited_zero_def split: if_splits)
  from assms av z obtain u where mv: "fst (shutil_move E t p ?fs1) = Inr u"
    by (cases "fst (shutil_move E t p ?fs1)")
       (auto simp: exiftool_step_def io_simps exited_zero_def split: sum.splits if_splits)
  from av z mv have "files (snd (exiftool_step E c p t w)) = snd (shutil_move E t p ?fs1)"
    by (auto simp: exiftool_step_def io_simps exited_zero_def split: sum.splits)
  moreover from mv have "shutil_move E t p ?fs1 = (Inr (), snd (shutil_move E t p ?fs1))"
    by (cases "shutil_move E t p ?fs1") simp
  ultimately show ?thesis
    unfolding staged_then_moved_def using z by (intro exI [of _ "files w"] exI [of _ ?fs1]) simp
qed

lemma image_step_success:
  assumes "fst (image_step E p t w) = Inr True"
  shows "staged_then_moved E t p (files (snd (image_step E p t w)))"
proof -
  from assms obtain img where op: "image_open E p (files w) = Inr img"
    by (cases "image_open E p (files w)") (auto simp: image_step_def io_simps)
  let ?fs1 = "snd (image_save_pixels E img t (files w))"
  from assms op obtain u where sv: "fst (image_save_pixels E img t (files w)) = Inr u"
    by (cases "fst (image_save_pixels E img t (files w))") (auto simp: image_step_def io_simps)
  from assms op sv obtain v where mv: "fst (shutil_move E t p ?fs1) = Inr v"
    by (cases "fst (shutil_move E t p ?fs1)") (auto simp: image_step_def io_simps)
  from op sv mv have "files (snd (image_step E p t w)) = snd (shutil_move E t p ?fs1)"
    by (simp add: image_step_def io_simps)
  moreover from mv have "shutil_move E t p ?fs1 = (Inr (), snd (shutil_move E t p ?fs1))"
    by (cases "shutil_move E t p ?fs1") simp
  moreover from sv have "image_save_pixels E img t (files w) = (Inr (), ?fs1)"
    by (cases "image_save_pixels E img t (files w)") simp
  ultimately show ?thesis
    unfolding staged_then_moved_def by (intro exI [of _ "files w"] exI [of _ ?fs1]) auto
qed

lemma pdf_step_success:
  assumes "fst (pdf_step E c p w) = Inr True"
  shows "tool_available c ''qpdf'' \<and> rewritten_in_place E p (files (snd (pdf_step E c p w)))"
proof -
  let ?argv = "[''qpdf'', ''--linearize'', ''--replace-input'', p]"
  from assms have av: "tool_available c ''qpdf''"
    by (cases "tool_available c ''qpdf''") (simp_all add: pdf_step_def io_simps)
  from assms av have z: "exited_zero (fst (subprocess_run E ?argv (files w)))"
    by (cases "fst (subprocess_run E ?argv (files w))")
       (auto simp: pdf_step_def io_simps exited_zero_def split: if_splits)
  from av z have "files (snd (pdf_step E c p w)) = snd (subprocess_run E ?argv (files w))"
    by (auto simp: pdf_step_def io_simps exited_zero_def split: sum.splits)
  with av z show ?thesis
    unfolding rewritten_in_place_def by (auto intro: exI [of _ "files w"])
qed

lemma fallback_step_success:
  assumes "fst (fallback_step E c p ext t w) = Inr True"
  shows "staged_then_moved E t p (files (snd (fallback_step E c p ext t w)))
       \<or> (ext = ''.pdf'' \<and> tool_available c ''qpdf''
          \<and> rewritten_in_place E p (files (snd (fallback_step E c p ext t w))))"
proof (cases "ext = ''.pdf''")
  case True
  with assms pdf_step_success [of E c p w] show ?thesis by (simp add: fallback_step_def)
next
  case False
  show ?thesis
  proof (cases "ext \<in> set image_extensions")
    case True
    with False assms image_step_success [of E p t w] show ?thesis by (simp add: fallback_step_def)
  next
    case no_image: False
    with False assms show ?thesis by (auto simp: fallback_step_def ret_apply split: if_splits)
  qed
qed

lemma clean_metadata_success:
  assumes "fst (clean_metadata E c p w) = Inr True"
  shows "staged_then_moved E (temp_file_of (temp_folder c) p) p (files (snd (clean_metadata E c p w)))
       \<or> (extension_of p = ''.pdf'' \<and> tool_available c ''qpdf''
          \<and> rewritten_in_place E p (files (snd (clean_metadata E c p w))))"
proof -
  let ?t = "temp_file_of (temp_folder c) p"
  let ?w1 = "snd (exiftool_step E c p ?t w)"
  from total_exiftool_step [of E c p ?t w] show ?thesis
  proof
    assume a: "fst (exiftool_step E c p ?t w) = Inr (Some True)"
    then have "files (snd (clean_metadata E c p w)) = files ?w1"
      by (simp add: clean_metadata_def clean_metadata_body_def Let_def io_simps)
    with exiftool_step_success [OF a] show ?thesis by simp
  next
    assume a: "fst (exiftool_step E c p ?t w) = Inr None"
    then have body: "clean_metadata_body E c p w = fallback_step E c p (extension_of p) ?t ?w1"
      by (simp add: clean_metadata_body_def Let_def bind_fst_snd)
    from assms have ok: "fst (fallback_step E c p (extension_of p) ?t ?w1) = Inr True"
      by (cases "fst (fallback_step E c p (extension_of p) ?t ?w1)")
         (simp_all add: clean_metadata_def try_fst_snd body ret_apply)
    then have "files (snd (clean_metadata E c p w))
        = files (snd (fallback_step E c p (extension_of p) ?t ?w1))"
      by (simp add: clean_metadata_def try_fst_snd body)
    with fallback_step_success [OF ok] show ?thesis by simp
  qed
qed

subsection \<open>Exceptions during a redaction\<close>

lemma exiftool_step_tracked: "tracked (\<lambda>r. r = None) (exiftool_step E c p t)"
  unfolding exiftool_step_def
  by (auto intro!: tracked_ret tracked_try tracked_bind_honest tracked_run tracked_move)

lemma pdf_step_tracked: "tracked (\<lambda>b. b = False) (pdf_step E c p)"
proof -
  have inner: "tracked (\<lambda>r. r = None)
      (if tool_available c ''qpdf'' then
          try_except
            (bind (run E [''qpdf'', ''--linearize'', ''--replace-input'', p]) (\<lambda>result.
               ret (if returncode result = 0 then Some True else None)))
            (\<lambda>e. ret None)
        else ret None)"
    by (auto intro!: tracked_ret tracked_try tracked_bind_honest tracked_run)
  show ?thesis
    unfolding pdf_step_def
    by (rule tracked_bind [OF inner]) (auto intro!: tracked_ret simp: ret_apply split: option.splits)
qed

lemma image_step_tracked: "tracked (\<lambda>b. b = False) (image_step E p t)"
  unfolding image_step_def
  by (auto intro!: tracked_ret tracked_try tracked_bind_honest tracked_open_image
        tracked_save_pixels tracked_move)

lemma fallback_step_tracked: "tracked (\<lambda>b. b = False) (fallback_step E c p ext t)"
  unfolding fallback_step_def
  by (intro tracked_if tracked_ret pdf_step_tracked image_step_tracked)

lemma total_pdf_step: "total (pdf_step E c p)"
  by (auto simp: total_def pdf_step_def io_simps split: sum.splits option.splits)

lemma total_image_step: "total (image_step E p t)"
  unfolding image_step_def by (rule total_try)

lemma total_fallback_step: "total (fallback_step E c p ext t)"
  using total_pdf_step [of E c p] total_image_step [of E p t]
  by (auto simp: total_def fallback_step_def ret_apply)

lemma clean_metadata_body_tracked: "tracked (\<lambda>_. True) (clean_metadata_body E c p)"
  unfolding clean_metadata_body_def Let_def
  by (rule tracked_bind [OF exiftool_step_tracked])
     (auto intro!: tracked_ret tracked_weaken [OF fallback_step_tracked] split: option.splits)

lemma clean_metadata_tracked: "tracked (\<lambda>_. True) (clean_metadata E c p)"
  unfolding clean_metadata_def
  by (rule tracked_try [OF clean_metadata_body_tracked]) simp_all

lemma clean_metadata_after_exiftool_step:
  assumes "journal (snd (clean_metadata E c p w))
             \<noteq> journal (snd (exiftool_step E c p (temp_file_of (temp_folder c) p) w))"
  shows "fst (clean_metadata E c p w) = Inr False"
proof -
  let ?t = "temp_file_of (temp_folder c) p"
  let ?w1 = "snd (exiftool_step E c p ?t w)"
  let ?fb = "fallback_step E c p (extension_of p) ?t"
  from total_exiftool_step [of E c p ?t w] show ?thesis
  proof
    assume "fst (exiftool_step E c p ?t w) = Inr (Some True)"
    then have "snd (clean_metadata E c p w) = ?w1"
      by (simp add: clean_metadata_def clean_metadata_body_def Let_def io_simps)
    with assms show ?thesis by simp
  next
    assume "fst (exiftool_step E c p ?t w) = Inr None"
    then have body: "clean_metadata_body E c p w = ?fb ?w1"
      by (simp add: clean_metadata_body_def Let_def bind_fst_snd)
    from total_fallback_step [of E c p "extension_of p" ?t]
    obtain b where b: "fst (?fb ?w1) = Inr b"
      unfolding total_def by (cases "fst (?fb ?w1)") (auto dest: spec [of _ ?w1])
    then have eq: "fst (clean_metadata E c p w) = fst (?fb ?w1)"
        "snd (clean_metadata E c p w) = snd (?fb ?w1)"
      by (simp_all add: clean_metadata_def try_fst_snd body)
    from assms eq(2) have "journal (snd (?fb ?w1)) \<noteq> journal ?w1" by simp
    from tracked_result [OF fallback_step_tracked total_fallback_step this] eq(1)
    show ?thesis by simp
  qed
qed

section \<open>Facts about the handlers\<close>

text \<open>
  The staging folder of a handler is the one its cleaner got from \<^verbatim>\<open>__init__\<close>: the
  folder \<^verbatim>\<open>_temp_metadata_cleaner\<close> beneath the watched folder.
\<close>

lemma init_cleaner_temp_folder:
  assumes "fst (init_cleaner E folder w) = Inr c"
  shows "temp_folder c = staging_folder (abspath E folder)"
  using assms
  by (auto simp: init_cleaner_def Let_def bind_fst_snd ret_apply split: sum.splits)

lemma new_handler_temp_folder: "handler_temp_folder (new_handler c) = temp_folder c"
  by (simp add: new_handler_def)

lemma silent_send: "silent p (send_telegram_message E msg)"
  unfolding send_telegram_message_def
  by (intro silent_bind silent_try silent_emit silent_lift silent_ret) simp

lemma silent_has_metadata: "silent p (has_metadata E c q)"
  by (rule silent_tracked [OF has_metadata_tracked])

lemma silent_clean_metadata: "silent p (clean_metadata E c q)"
  by (rule silent_tracked [OF clean_metadata_tracked])

lemma inspect_and_clean_once:
  "inspections p (snd (inspect_and_clean E c p headline w)) = Suc (inspections p w)"
proof -
  let ?rest = "bind (has_metadata E c p) (\<lambda>found.
     if fst found then
       bind (lift (relpath E p (folder_path c))) (\<lambda>relative_path.
       bind (lift (json_dumps E (snd found))) (\<lambda>metadata_str.
       bind (send_telegram_message E (headline relative_path (truncate_str metadata_str))) (\<lambda>_.
       bind (emit (Redact p)) (\<lambda>_.
       bind (clean_metadata E c p) (\<lambda>cleaned.
       bind (send_telegram_message E
               (if cleaned then Metadata_removed relative_path
                else Removal_failed relative_path)) (\<lambda>_.
       ret ()))))))
     else ret ())"
  have rest: "silent p ?rest"
    by (intro silent_bind silent_if silent_has_metadata silent_clean_metadata silent_send
          silent_lift silent_ret silent_emit) simp
  have "inspect_and_clean E c p headline w = ?rest (w\<lparr>journal := journal w @ [Inspect p]\<rparr>)"
    by (simp add: inspect_and_clean_def bind_fst_snd emit_def)
  with rest show ?thesis by (simp add: silent_def inspections_def)
qed

lemma inspections_sleep: "inspections p (snd (sleep n w)) = inspections p w"
  by (simp add: sleep_def emit_def inspections_def)

lemma files_sleep: "files (snd (sleep n w)) = files w"
  by (simp add: sleep_def emit_def)

lemma created_body_inspections:
  "inspections (src_path ev) (snd (created_body E h ev w))
     = inspections (src_path ev) w + (if path_exists (src_path ev) w then 1 else 0)"
  by (simp add: created_body_def inspect_and_clean_once)

lemma modified_body_inspections:
  "inspections (src_path ev) (snd (modified_body E h ev w))
     = inspections (src_path ev) w
       + (if path_exists (src_path ev) w \<and> extension_of (src_path ev) \<in> set relevant_extensions
          then 1 else 0)"
  by (simp add: modified_body_def Let_def inspect_and_clean_once)

lemma created_run_inspections:
  "inspections (src_path ev) (created_run E h ev w)
     = inspections (src_path ev) w + (if inspects Created ev w then 1 else 0)"
  by (simp add: created_run_def Let_def inspections_sleep snd_try_ret created_body_inspections
      path_exists_def files_sleep inspects_def)

lemma modified_run_inspections:
  "inspections (src_path ev) (modified_run E h ev w)
     = inspections (src_path ev) w + (if inspects Modified ev w then 1 else 0)"
  by (simp add: modified_run_def Let_def inspections_sleep snd_try_ret modified_body_inspections
      path_exists_def inspects_def)

lemma run_of_inspections:
  "inspections (src_path ev) (run_of E ty h ev w)
     = inspections (src_path ev) w + (if inspects ty ev w then 1 else 0)"
  by (cases ty) (simp_all add: run_of_def created_run_inspections modified_run_inspections)

lemma pending_discarded:
  assumes "src_path (snd x) \<in> recently_processed h"
  shows "dispatch E h x w = (h, w)"
  using assms by (cases "fst x") (simp_all add: dispatch_def on_created_def on_modified_def)

lemma dispatch_all_pending:
  assumes "\<forall>x \<in> set xs. src_path (snd x) \<in> recently_processed h"
  shows "dispatch_all E xs (h, w) = (h, w)"
  using assms by (induction xs) (simp_all add: pending_discarded)

lemma dispatch_admitted:
  assumes "passes_guards h ev"
  shows "dispatch E h (ty, ev) w
           = (release_pending (mark_pending h ev) ev, run_of E ty (mark_pending h ev) ev w)"
  using assms
  by (cases ty) (auto simp: dispatch_def on_created_def on_modified_def passes_guards_def
      run_of_def Let_def)

section \<open>Facts about the sample environments\<close>

lemma sample_report_ext: "extension_of ''/w/a/report.pdf'' = ''.pdf''"
  by (simp add: extension_of_def splitext_ext_def basename_def lower_def lower_char_def)

lemma sample_report_temp:
  "temp_file_of (temp_folder (sample_cleaner a b)) ''/w/a/report.pdf''
     = ''/w/_temp_metadata_cleaner/report.pdf''"
  by (simp add: temp_file_of_def sample_cleaner_def staging_folder_def join_def basename_def)

lemma sample_image_ext: "extension_of ''/w/a/x.jpg'' = ''.jpg''"
  by (simp add: extension_of_def splitext_ext_def basename_def lower_def lower_char_def)

lemma sample_image_temp:
  "temp_file_of (temp_folder (sample_cleaner a b)) ''/w/a/x.jpg''
     = ''/w/_temp_metadata_cleaner/x.jpg''"
  by (simp add: temp_file_of_def sample_cleaner_def staging_folder_def join_def basename_def)

lemma sample_staging_contract_any:
  assumes "t \<noteq> p"
  shows "staging_contract (sample_env a out b) t p"
  using assms
  by (cases a)
     (auto simp: staging_contract_def sample_env_def sample_subprocess_def rename_file_def
       write_file_def split: option.splits)

lemma sample_qpdf_contract:
  "qpdf_contract (sample_env a out (Inr 2)) ''/w/a/report.pdf''"
  by (simp add: qpdf_contract_def sample_env_def sample_subprocess_def exited_zero_def exits_def)

section \<open>The claims\<close>

subsection \<open>C1: a failed redaction and the original file\<close>

text \<open>
  C1, as amended. The claim says that a redaction that does not return \<open>True\<close> leaves
  the original file unchanged, the original being replaced only after a clean copy
  exists at the staging path. The branch for \<^verbatim>\<open>.pdf\<close> does not stage: it has \<^verbatim>\<open>qpdf\<close>
  rewrite the original in place. So: provided the operations aimed at the staging file
  keep to it (\<open>staging_contract\<close>) and, for a \<^verbatim>\<open>.pdf\<close> with \<^verbatim>\<open>qpdf\<close> available, \<^verbatim>\<open>qpdf\<close>
  leaves its input as it was unless it exits with status 0 (\<open>qpdf_contract\<close>), a
  redaction that does not return \<open>True\<close> leaves the original file unchanged; and a
  redaction that returns \<open>True\<close> ends either with a successful move of the staging file
  onto the original, made after the staging file was written, or, for a \<^verbatim>\<open>.pdf\<close> with
  \<^verbatim>\<open>qpdf\<close> available, with \<^verbatim>\<open>qpdf\<close> having rewritten the original in place.
\<close>

theorem clean_metadata_failure_keeps_original:
  assumes "staging_contract E (temp_file_of (temp_folder c) p) p"
    and "extension_of p = ''.pdf'' \<Longrightarrow> tool_available c ''qpdf'' \<Longrightarrow> qpdf_contract E p"
  shows "(fst (clean_metadata E c p w) \<noteq> Inr True \<longrightarrow>
            files (snd (clean_metadata E c p w)) p = files w p)
       \<and> (fst (clean_metadata E c p w) = Inr True \<longrightarrow>
            staged_then_moved E (temp_file_of (temp_folder c) p) p
              (files (snd (clean_metadata E c p w)))
            \<or> (extension_of p = ''.pdf'' \<and> tool_available c ''qpdf''
               \<and> rewritten_in_place E p (files (snd (clean_metadata E c p w)))))"
proof -
  have "fst (clean_metadata E c p w) \<noteq> Inr True \<longrightarrow>
          files (snd (clean_metadata E c p w)) p = files w p"
    using clean_metadata_body_frame [OF assms(1,2), of w]
    by (auto simp: clean_metadata_def io_simps)
  with clean_metadata_success [of E c p w] show ?thesis by blast
qed

text \<open>
  C1, witness. On \<^verbatim>\<open>/w/a/report.pdf\<close>, \<^verbatim>\<open>exiftool\<close> exits with status 1 and \<^verbatim>\<open>qpdf\<close>
  with status 2: the redaction returns \<open>False\<close> and the file has its original content.
  On \<^verbatim>\<open>/w/a/x.jpg\<close>, \<^verbatim>\<open>exiftool\<close> exits with status 0: the redaction returns \<open>True\<close>,
  by a move of the staging file.
\<close>

theorem clean_metadata_failure_keeps_original_witness:
  "staging_contract (sample_env (Inr 1) [] (Inr 2))
     (temp_file_of (temp_folder (sample_cleaner True True)) ''/w/a/report.pdf'') ''/w/a/report.pdf''
   \<and> qpdf_contract (sample_env (Inr 1) [] (Inr 2)) ''/w/a/report.pdf''
   \<and> fst (clean_metadata (sample_env (Inr 1) [] (Inr 2)) (sample_cleaner True True)
            ''/w/a/report.pdf'' sample_world) = Inr False
   \<and> files (snd (clean_metadata (sample_env (Inr 1) [] (Inr 2)) (sample_cleaner True True)
            ''/w/a/report.pdf'' sample_world)) ''/w/a/report.pdf'' = Some ''original pdf''
   \<and> staging_contract (sample_env (Inr 0) [] (Inr 2))
       (temp_file_of (temp_folder (sample_cleaner True True)) ''/w/a/x.jpg'') ''/w/a/x.jpg''
   \<and> fst (clean_metadata (sample_env (Inr 0) [] (Inr 2)) (sample_cleaner True True)
            ''/w/a/x.jpg'' sample_world) = Inr True
   \<and> staged_then_moved (sample_env (Inr 0) [] (Inr 2))
       (temp_file_of (temp_folder (sample_cleaner True True)) ''/w/a/x.jpg'') ''/w/a/x.jpg''
       (files (snd (clean_metadata (sample_env (Inr 0) [] (Inr 2)) (sample_cleaner True True)
            ''/w/a/x.jpg'' sample_world)))"
proof -
  let ?E = "sample_env (Inr 1) [] (Inr 2)"
  let ?E' = "sample_env (Inr 0) [] (Inr 2)"
  let ?c = "sample_cleaner True True"
  have s: "staging_contract ?E (temp_file_of (temp_folder ?c) ''/w/a/report.pdf'') ''/w/a/report.pdf''"
    by (simp add: sample_report_temp sample_staging_contract_any)
  have q: "qpdf_contract ?E ''/w/a/report.pdf''" by (rule sample_qpdf_contract)
  have r: "fst (clean_metadata ?E ?c ''/w/a/report.pdf'' sample_world) = Inr False"
    by code_simp
  have o: "files sample_world ''/w/a/report.pdf'' = Some ''original pdf''"
    by (simp add: sample_world_def)
  have s': "staging_contract ?E' (temp_file_of (temp_folder ?c) ''/w/a/x.jpg'') ''/w/a/x.jpg''"
    by (simp add: sample_image_temp sample_staging_contract_any)
  have n: "extension_of ''/w/a/x.jpg'' \<noteq> ''.pdf''" by (simp add: sample_image_ext)
  have r': "fst (clean_metadata ?E' ?c ''/w/a/x.jpg'' sample_world) = Inr True"
    by code_simp
  from clean_metadata_failure_keeps_original [OF s q, of sample_world] r o
  have 1: "files (snd (clean_metadata ?E ?c ''/w/a/report.pdf'' sample_world)) ''/w/a/report.pdf''
             = Some ''original pdf''" by simp
  from clean_metadata_failure_keeps_original [OF s', of sample_world] r' n
  have 2: "staged_then_moved ?E' (temp_file_of (temp_folder ?c) ''/w/a/x.jpg'') ''/w/a/x.jpg''
       (files (snd (clean_metadata ?E' ?c ''/w/a/x.jpg'' sample_world)))" by simp
  from s q r 1 s' r' 2 show ?thesis by blast
qed

text \<open>
  C1, counterexample, on \<^verbatim>\<open>/w/a/report.pdf\<close> with only \<^verbatim>\<open>qpdf\<close> available. When \<^verbatim>\<open>qpdf\<close>
  exits with status 3 (it replaced its input and reports warnings), the redaction
  returns \<open>False\<close> and the original has been replaced. When \<^verbatim>\<open>qpdf\<close> exits with status
  0, the redaction returns \<open>True\<close>, the original has been replaced, and there is no file
  at the staging path.
\<close>

theorem clean_metadata_counterexample:
  "fst (clean_metadata (sample_env (Inl FileNotFoundError) [] (Inr 3)) (sample_cleaner False True)
          ''/w/a/report.pdf'' sample_world) = Inr False
   \<and> files sample_world ''/w/a/report.pdf'' = Some ''original pdf''
   \<and> files (snd (clean_metadata (sample_env (Inl FileNotFoundError) [] (Inr 3))
          (sample_cleaner False True) ''/w/a/report.pdf'' sample_world)) ''/w/a/report.pdf''
       = Some ''linearized''
   \<and> fst (clean_metadata (sample_env (Inl FileNotFoundError) [] (Inr 0)) (sample_cleaner False True)
          ''/w/a/report.pdf'' sample_world) = Inr True
   \<and> files (snd (clean_metadata (sample_env (Inl FileNotFoundError) [] (Inr 0))
          (sample_cleaner False True) ''/w/a/report.pdf'' sample_world)) ''/w/a/report.pdf''
       = Some ''linearized''
   \<and> files (snd (clean_metadata (sample_env (Inl FileNotFoundError) [] (Inr 0))
          (sample_cleaner False True) ''/w/a/report.pdf'' sample_world))
          (temp_file_of (temp_folder (sample_cleaner False True)) ''/w/a/report.pdf'') = None"
  by code_simp

subsection \<open>C2: rapid-fire events for one path\<close>

text \<open>
  C2, as amended. The claim says that of N rapid-fire create or modify events for one
  path exactly one is admitted to inspection and redaction. Take a burst whose first
  event passes the guards (its path is not a directory, not inside the staging folder
  and not pending) and whose other events, of either type, have the same path. The
  burst does what the handler call for the first event does alone: each other event is
  discarded at the guard, leaving handler and world as they are. The file is inspected
  at most once: once when it exists and, for a first event of type modified, its
  extension is one of \<^verbatim>\<open>relevant_extensions\<close>; otherwise not at all. And in any state
  of the handler, an event whose path is in \<^verbatim>\<open>recently_processed\<close> is discarded
  without effect. The path is pending from the insertion to the \<^verbatim>\<open>finally\<close> block of
  the first call; after the burst the set is what it was before, so a later event for
  the path is admitted again. The test of the set and the insertion into it
  (lines 399--402 and 449--452) are taken as one step.
\<close>

theorem burst_admits_first_only:
  assumes "passes_guards h ev"
    and "\<forall>x \<in> set others. src_path (snd x) = src_path ev"
  shows "burst E h (ty, ev) others w = dispatch E h (ty, ev) w
       \<and> inspections (src_path ev) (snd (burst E h (ty, ev) others w))
           = inspections (src_path ev) w + (if inspects ty ev w then 1 else 0)
       \<and> (\<forall>x \<in> set others. \<forall>w'. dispatch E (mark_pending h ev) x w' = (mark_pending h ev, w'))
       \<and> (src_path ev' \<in> recently_processed h' \<longrightarrow> dispatch E h' (ty', ev') w' = (h', w'))
       \<and> recently_processed (fst (burst E h (ty, ev) others w)) = recently_processed h"
proof -
  have pend: "\<forall>x \<in> set others. src_path (snd x) \<in> recently_processed (mark_pending h ev)"
    using assms(2) by (simp add: mark_pending_def)
  have all: "dispatch_all E others (mark_pending h ev, w) = (mark_pending h ev, w)"
    by (rule dispatch_all_pending [OF pend])
  have b: "burst E h (ty, ev) others w = dispatch E h (ty, ev) w"
    using assms(1) by (simp add: burst_def Let_def all dispatch_admitted)
  have i: "inspections (src_path ev) (snd (burst E h (ty, ev) others w))
           = inspections (src_path ev) w + (if inspects ty ev w then 1 else 0)"
    using assms(1) by (simp add: b dispatch_admitted run_of_inspections)
  have d: "\<forall>x \<in> set others. \<forall>w'. dispatch E (mark_pending h ev) x w' = (mark_pending h ev, w')"
    using pend by (simp add: pending_discarded)
  have p: "src_path ev' \<in> recently_processed h' \<longrightarrow> dispatch E h' (ty', ev') w' = (h', w')"
    by (simp add: pending_discarded)
  have "src_path ev \<notin> recently_processed h"
    using assms(1) by (simp add: passes_guards_def)
  then have r: "recently_processed (fst (burst E h (ty, ev) others w)) = recently_processed h"
    using assms(1) by (simp add: b dispatch_admitted release_pending_def mark_pending_def)
  from b i d p r show ?thesis by blast
qed

text \<open>
  C2, witness: a created event for the image \<^verbatim>\<open>/w/a/x.jpg\<close>, followed within the burst
  by a modified and a created event for the same path; the file is inspected once.
\<close>

theorem burst_admits_first_only_witness:
  "passes_guards (new_handler (sample_cleaner True True)) (sample_event ''/w/a/x.jpg'')
   \<and> inspections ''/w/a/x.jpg''
        (snd (burst (sample_env (Inr 0) ''with a camera model'' (Inr 0))
           (new_handler (sample_cleaner True True))
           (Created, sample_event ''/w/a/x.jpg'')
           [(Modified, sample_event ''/w/a/x.jpg''), (Created, sample_event ''/w/a/x.jpg'')]
           sample_world)) = 1"
proof -
  let ?h = "new_handler (sample_cleaner True True)"
  let ?ev = "sample_event ''/w/a/x.jpg''"
  have g: "passes_guards ?h ?ev" by code_simp
  have o: "\<forall>x \<in> set [(Modified, ?ev), (Created, ?ev)]. src_path (snd x) = src_path ?ev"
    by simp
  have i: "inspects Created ?ev sample_world" by code_simp
  have z: "inspections ''/w/a/x.jpg'' sample_world = 0"
    by (simp add: inspections_def sample_world_def)
  have s: "src_path ?ev = ''/w/a/x.jpg''" by (simp add: sample_event_def)
  from burst_admits_first_only [OF g o, of "sample_env (Inr 0) ''with a camera model'' (Inr 0)"
         Created sample_world]
  have "inspections (src_path ?ev)
          (snd (burst (sample_env (Inr 0) ''with a camera model'' (Inr 0)) ?h (Created, ?ev)
             [(Modified, ?ev), (Created, ?ev)] sample_world))
        = inspections (src_path ?ev) sample_world
          + (if inspects Created ?ev sample_world then 1 else 0)"
    by blast
  with g i z s show ?thesis by simp
qed

text \<open>
  C2, counterexample: three modified events for the existing file \<^verbatim>\<open>/w/notes.txt\<close>. The
  first passes the guards, yet the journal of the whole burst holds the final sleep
  alone: no event led to an inspection, a redaction or a notification.
\<close>

theorem burst_counterexample:
  "passes_guards (new_handler (sample_cleaner True True)) (sample_event ''/w/notes.txt'')
   \<and> path_exists ''/w/notes.txt'' sample_world
   \<and> journal (snd (burst (sample_env (Inr 0) ''with a camera model'' (Inr 0))
        (new_handler (sample_cleaner True True))
        (Modified, sample_event ''/w/notes.txt'')
        [(Modified, sample_event ''/w/notes.txt''), (Modified, sample_event ''/w/notes.txt'')]
        sample_world)) = [Sleep 4]"
  by code_simp

subsection \<open>C3: the capability probe\<close>

text \<open>
  C3, as amended. The claim says that the probe never throws and that a tool counts as
  not installed both when its binary is missing and when its version query errors, for
  instance by a nonzero exit status. The code runs the query with \<^verbatim>\<open>check=False\<close> and
  never reads the exit status: a tool is installed exactly when the call returns. So,
  provided each of the two version queries either returns or raises an exception of the
  classes the probe catches (\<^verbatim>\<open>FileNotFoundError\<close>, \<^verbatim>\<open>subprocess.SubprocessError\<close>), the
  probe does not throw, and it records each tool as installed if and only if its query
  returned, whatever the exit status. A missing binary gives \<open>False\<close>; a binary that
  exits with a nonzero status gives \<open>True\<close>.
\<close>

theorem check_required_tools_classifies:
  assumes "case fst (subprocess_run E [''exiftool'', ''-ver''] (files w)) of
             Inl e \<Rightarrow> probe_catches e | Inr result \<Rightarrow> True"
    and "case fst (subprocess_run E [''qpdf'', ''--version'']
                (snd (subprocess_run E [''exiftool'', ''-ver''] (files w)))) of
             Inl e \<Rightarrow> probe_catches e | Inr result \<Rightarrow> True"
  shows "fst (check_required_tools E w) =
           Inr [''exiftool'' \<mapsto> \<not> isl (fst (subprocess_run E [''exiftool'', ''-ver''] (files w))),
                ''qpdf'' \<mapsto> \<not> isl (fst (subprocess_run E [''qpdf'', ''--version'']
                                 (snd (subprocess_run E [''exiftool'', ''-ver''] (files w)))))]"
proof -
  let ?r1 = "fst (subprocess_run E [''exiftool'', ''-ver''] (files w))"
  let ?r2 = "fst (subprocess_run E [''qpdf'', ''--version'']
                (snd (subprocess_run E [''exiftool'', ''-ver''] (files w))))"
  have p1: "fst (probe_tool E [''exiftool'', ''-ver''] w) = Inr (\<not> isl ?r1)"
    using assms(1) by (cases ?r1) (simp_all add: fst_probe_tool)
  have p2: "fst (probe_tool E [''qpdf'', ''--version'']
                  (snd (probe_tool E [''exiftool'', ''-ver''] w))) = Inr (\<not> isl ?r2)"
    using assms(2) by (cases ?r2) (simp_all add: fst_probe_tool files_probe_tool)
  show ?thesis
    by (simp add: check_required_tools_def bind_fst_snd p1 p2 ret_apply)
qed

text \<open>
  C3, witness: \<^verbatim>\<open>exiftool\<close> is missing and \<^verbatim>\<open>qpdf\<close> answers its version query with exit
  status 1; the first is recorded as absent, the second as installed.
\<close>

theorem check_required_tools_classifies_witness:
  "fst (check_required_tools (sample_env (Inl FileNotFoundError) [] (Inr 1)) sample_world)
     = Inr [''exiftool'' \<mapsto> False, ''qpdf'' \<mapsto> True]"
  using check_required_tools_classifies
          [of "sample_env (Inl FileNotFoundError) [] (Inr 1)" sample_world]
  by (simp add: sample_env_def sample_subprocess_def probe_catches_def)

text \<open>
  C3, counterexample: both binaries are present and both version queries exit with
  status 1, yet both tools are recorded as installed.
\<close>

theorem check_required_tools_counterexample:
  "fst (check_required_tools (sample_env (Inr 1) [] (Inr 1)) sample_world)
     = Inr [''exiftool'' \<mapsto> True, ''qpdf'' \<mapsto> True]"
  by (simp add: check_required_tools_def bind_fst_snd fst_probe_tool files_probe_tool ret_apply
      sample_env_def sample_subprocess_def)

subsection \<open>C4: the fallback from the general tool to qpdf\<close>

text \<open>
  C4. For a file whose extension is \<^verbatim>\<open>.pdf\<close> (in any letter case), with both tools
  available: when the stripping invocation of \<^verbatim>\<open>exiftool\<close> fails (it raises, or exits
  with a nonzero status) and the invocation of \<^verbatim>\<open>qpdf\<close> that follows exits with status
  0, \<^verbatim>\<open>clean_metadata\<close> returns \<open>True\<close>.
\<close>

theorem clean_metadata_pdf_fallback:
  assumes "extension_of p = ''.pdf''"
    and "tool_available c ''exiftool''" and "tool_available c ''qpdf''"
    and "\<not> exited_zero (fst (subprocess_run E
            [''exiftool'', ''-all='', ''-o'', temp_file_of (temp_folder c) p, p] (files w)))"
    and "exited_zero (fst (subprocess_run E [''qpdf'', ''--linearize'', ''--replace-input'', p]
            (snd (subprocess_run E
               [''exiftool'', ''-all='', ''-o'', temp_file_of (temp_folder c) p, p] (files w)))))"
  shows "fst (clean_metadata E c p w) = Inr True"
proof -
  let ?t = "temp_file_of (temp_folder c) p"
  let ?run1 = "subprocess_run E [''exiftool'', ''-all='', ''-o'', ?t, p] (files w)"
  have step: "fst (exiftool_step E c p ?t w) = Inr None"
    and fs1: "files (snd (exiftool_step E c p ?t w)) = snd ?run1"
    using assms(2,4)
    by (cases "fst ?run1"; simp add: exiftool_step_def io_simps exited_zero_def)+
  have pdf: "fst (pdf_step E c p (snd (exiftool_step E c p ?t w))) = Inr True"
    using assms(3,5)
    by (cases "fst (subprocess_run E [''qpdf'', ''--linearize'', ''--replace-input'', p] (snd ?run1))")
       (simp_all add: pdf_step_def io_simps exited_zero_def fs1)
  show ?thesis
    using step pdf assms(1)
    by (simp add: clean_metadata_def clean_metadata_body_def Let_def fallback_step_def io_simps)
qed

text \<open>
  C4, witness: \<^verbatim>\<open>exiftool\<close> exits with status 1 and \<^verbatim>\<open>qpdf\<close> with status 0 on
  \<^verbatim>\<open>/w/a/report.pdf\<close>.
\<close>

theorem clean_metadata_pdf_fallback_witness:
  "fst (clean_metadata (sample_env (Inr 1) [] (Inr 0)) (sample_cleaner True True)
          ''/w/a/report.pdf'' sample_world) = Inr True"
  using clean_metadata_pdf_fallback
          [of "''/w/a/report.pdf''" "sample_cleaner True True" "sample_env (Inr 1) [] (Inr 0)"
              sample_world]
  by (simp add: extension_of_def splitext_ext_def basename_def lower_def lower_char_def
      tool_available_def sample_cleaner_def sample_env_def sample_subprocess_def
      exited_zero_def exits_def)

subsection \<open>C5: inspection fails open\<close>

text \<open>
  C5. With \<^verbatim>\<open>exiftool\<close> available, whenever its invocation or the parsing of its output
  fails (the call raises, the exit status is nonzero, the output is not JSON, or the
  parsed value has no dictionary as its first element), \<^verbatim>\<open>has_metadata\<close> returns
  \<open>False\<close> with an empty dictionary.
\<close>

theorem has_metadata_fail_open:
  assumes "tool_available c ''exiftool''"
    and "exiftool_failed E (fst (subprocess_run E [''exiftool'', ''-json'', p] (files w)))"
  shows "fst (has_metadata E c p w) = Inr (False, [])"
  using failed_outcome [OF assms(2)]
  by (simp add: has_metadata_exiftool [OF assms(1) get_metadata_fst [OF assms(1)]]
      filter_metadata_def split: sum.splits)

text \<open>
  C5, witness: once the tool exits with status 1, once it exits with status 0 and prints
  text that is not JSON.
\<close>

theorem has_metadata_fail_open_witness:
  "fst (has_metadata (sample_env (Inr 1) [] (Inr 0)) (sample_cleaner True True)
          ''/w/a/x.jpg'' sample_world) = Inr (False, [])
   \<and> fst (has_metadata (sample_env (Inr 0) ''garbage'' (Inr 0)) (sample_cleaner True True)
          ''/w/a/x.jpg'' sample_world) = Inr (False, [])"
  using has_metadata_fail_open
          [of "sample_cleaner True True" "sample_env (Inr 1) [] (Inr 0)" "''/w/a/x.jpg''"
              sample_world]
        has_metadata_fail_open
          [of "sample_cleaner True True" "sample_env (Inr 0) ''garbage'' (Inr 0)" "''/w/a/x.jpg''"
              sample_world]
  by (simp add: tool_available_def sample_cleaner_def sample_env_def sample_subprocess_def
      exiftool_failed_def exits_def sample_json_def)

subsection \<open>C6: inspection without the general tool\<close>

text \<open>
  C6. With \<^verbatim>\<open>exiftool\<close> unavailable: for a document or office extension
  \<^verbatim>\<open>has_metadata\<close> returns \<open>True\<close> with the warning of line 188, for a media extension
  \<open>True\<close> with the warning of line 192, and for an extension in none of the image,
  document and media lists \<open>False\<close> with an empty dictionary. In all three cases
  nothing else happens: the world is as before.
\<close>

theorem has_metadata_without_exiftool:
  assumes "\<not> tool_available c ''exiftool''"
  shows "(extension_of p \<in> {''.pdf'', ''.docx'', ''.doc'', ''.pptx'', ''.xlsx'', ''.xls''} \<longrightarrow>
            has_metadata E c p w =
              (Inr (True, [(PStr ''warning'', PStr ''Archivo potencialmente con metadatos'')]), w))
       \<and> (extension_of p \<in> {''.mp3'', ''.mp4'', ''.avi'', ''.mov'', ''.wav''} \<longrightarrow>
            has_metadata E c p w =
              (Inr (True, [(PStr ''warning'',
                            PStr ''Archivo multimedia potencialmente con metadatos'')]), w))
       \<and> (extension_of p \<notin> {''.jpg'', ''.jpeg'', ''.png'', ''.tiff'', ''.tif'', ''.webp'',
                              ''.pdf'', ''.docx'', ''.doc'', ''.pptx'', ''.xlsx'', ''.xls'',
                              ''.mp3'', ''.mp4'', ''.avi'', ''.mov'', ''.wav''} \<longrightarrow>
            has_metadata E c p w = (Inr (False, []), w))"
  using assms
  by (auto simp: has_metadata_def has_metadata_body_def try_fst_snd ret_apply
      image_extensions_def document_extensions_def media_extensions_def)

text \<open>
  C6, witness: a PDF, a video with an upper-case extension, and a text file.
\<close>

theorem has_metadata_without_exiftool_witness:
  "has_metadata (sample_env (Inl FileNotFoundError) [] (Inr 0)) (sample_cleaner False True)
      ''/w/a/report.pdf'' sample_world
     = (Inr (True, [(PStr ''warning'', PStr ''Archivo potencialmente con metadatos'')]),
        sample_world)
   \<and> has_metadata (sample_env (Inl FileNotFoundError) [] (Inr 0)) (sample_cleaner False True)
      ''/w/clip.MP4'' sample_world
     = (Inr (True, [(PStr ''warning'',
                     PStr ''Archivo multimedia potencialmente con metadatos'')]),
        sample_world)
   \<and> has_metadata (sample_env (Inl FileNotFoundError) [] (Inr 0)) (sample_cleaner False True)
      ''/w/notes.txt'' sample_world
     = (Inr (False, []), sample_world)"
  using has_metadata_without_exiftool
          [of "sample_cleaner False True" "''/w/a/report.pdf''"
              "sample_env (Inl FileNotFoundError) [] (Inr 0)" sample_world]
        has_metadata_without_exiftool
          [of "sample_cleaner False True" "''/w/clip.MP4''"
              "sample_env (Inl FileNotFoundError) [] (Inr 0)" sample_world]
        has_metadata_without_exiftool
          [of "sample_cleaner False True" "''/w/notes.txt''"
              "sample_env (Inl FileNotFoundError) [] (Inr 0)" sample_world]
  by (simp add: extension_of_def splitext_ext_def basename_def lower_def lower_char_def
      tool_available_def sample_cleaner_def)

subsection \<open>C7: the structural fields do not count\<close>

text \<open>
  C7. With \<^verbatim>\<open>exiftool\<close> available, when \<^verbatim>\<open>get_metadata_with_exiftool\<close> returns the
  dictionary \<open>kvs\<close>, \<^verbatim>\<open>has_metadata\<close> returns the entries of \<open>kvs\<close> outside the excluded
  fields, and reports metadata if and only if there is such an entry: if and only if
  some key of \<open>kvs\<close> is none of \<^verbatim>\<open>FileSize\<close>, \<^verbatim>\<open>FileName\<close>, \<^verbatim>\<open>FileType\<close>,
  \<^verbatim>\<open>MIMEType\<close>, \<^verbatim>\<open>ExifToolVersion\<close>.
\<close>

theorem has_metadata_iff_filtered:
  assumes "tool_available c ''exiftool''"
    and "fst (get_metadata_with_exiftool E c p w) = Inr (PDict kvs)"
  shows "fst (has_metadata E c p w) = Inr (filter_metadata kvs \<noteq> [], filter_metadata kvs)
       \<and> (filter_metadata kvs \<noteq> [] \<longleftrightarrow>
           (\<exists>kv \<in> set kvs. fst kv \<notin> {PStr ''FileSize'', PStr ''FileName'', PStr ''FileType'',
                                     PStr ''MIMEType'', PStr ''ExifToolVersion''}))"
  using has_metadata_exiftool [OF assms]
  by (auto simp: filter_metadata_def excluded_fields_def filter_empty_conv)

text \<open>
  C7, witness: a report with only \<^verbatim>\<open>FileName\<close> and \<^verbatim>\<open>FileSize\<close> gives \<open>False\<close>; a
  report with \<^verbatim>\<open>FileName\<close> and \<^verbatim>\<open>Model\<close> gives \<open>True\<close> and keeps \<^verbatim>\<open>Model\<close>.
\<close>

theorem has_metadata_iff_filtered_witness:
  "fst (has_metadata (sample_env (Inr 0) ''only structural fields'' (Inr 0))
          (sample_cleaner True True) ''/w/a/x.jpg'' sample_world) = Inr (False, [])
   \<and> fst (has_metadata (sample_env (Inr 0) ''with a camera model'' (Inr 0))
          (sample_cleaner True True) ''/w/a/x.jpg'' sample_world)
       = Inr (True, [(PStr ''Model'', PStr ''X100'')])"
  using has_metadata_iff_filtered
          [of "sample_cleaner True True" "sample_env (Inr 0) ''only structural fields'' (Inr 0)"
              "''/w/a/x.jpg''" sample_world
              "[(PStr ''FileName'', PStr ''x.jpg''), (PStr ''FileSize'', PStr ''12 kB'')]"]
        has_metadata_iff_filtered
          [of "sample_cleaner True True" "sample_env (Inr 0) ''with a camera model'' (Inr 0)"
              "''/w/a/x.jpg''" sample_world
              "[(PStr ''FileName'', PStr ''x.jpg''), (PStr ''Model'', PStr ''X100'')]"]
  by (simp add: get_metadata_fst metadata_of_outcome_def filter_metadata_def excluded_fields_def
      tool_available_def sample_cleaner_def sample_env_def sample_subprocess_def
      exits_def sample_json_def)

subsection \<open>C8: events inside the staging folder\<close>

text \<open>
  C8. An event whose path lies inside the handler's staging folder is discarded by
  \<^verbatim>\<open>on_created\<close> and by \<^verbatim>\<open>on_modified\<close> alike: the handler and the world are left as
  they were, so the journal shows no inspection, no redaction and no notification, and
  the path is not marked as pending. Neither the extension nor the directory flag
  matters.
\<close>

theorem staged_events_discarded:
  assumes "src_path ev = handler_temp_folder h @ ''/'' @ rest"
  shows "on_created E h ev w = (h, w) \<and> on_modified E h ev w = (h, w)"
  using assms by (simp add: on_created_def on_modified_def str_contains_prefix)

text \<open>
  C8, witness: the cleaner that \<^verbatim>\<open>__init__\<close> builds for the folder \<^verbatim>\<open>/w\<close> when both
  tools answer, a fresh handler for it, and an image inside
  \<^verbatim>\<open>/w/_temp_metadata_cleaner\<close>.
\<close>

theorem staged_events_discarded_witness:
  "fst (init_cleaner (sample_env (Inr 0) ''with a camera model'' (Inr 0)) ''/w'' sample_world)
     = Inr (sample_cleaner True True)
   \<and> src_path (sample_event ''/w/_temp_metadata_cleaner/x.jpg'')
      = handler_temp_folder (new_handler (sample_cleaner True True)) @ ''/'' @ ''x.jpg''
   \<and> on_created (sample_env (Inr 0) ''with a camera model'' (Inr 0))
        (new_handler (sample_cleaner True True))
        (sample_event ''/w/_temp_metadata_cleaner/x.jpg'') sample_world
      = (new_handler (sample_cleaner True True), sample_world)
   \<and> on_modified (sample_env (Inr 0) ''with a camera model'' (Inr 0))
        (new_handler (sample_cleaner True True))
        (sample_event ''/w/_temp_metadata_cleaner/x.jpg'') sample_world
      = (new_handler (sample_cleaner True True), sample_world)"
proof -
  have i: "fst (init_cleaner (sample_env (Inr 0) ''with a camera model'' (Inr 0)) ''/w'' sample_world)
     = Inr (sample_cleaner True True)"
    by (simp add: init_cleaner_def Let_def check_required_tools_def bind_fst_snd ret_apply
        fst_on_files fst_probe_tool files_probe_tool send_telegram_message_def try_fst_snd
        fst_lift emit_def sample_env_def sample_subprocess_def sample_cleaner_def)
  have h: "src_path (sample_event ''/w/_temp_metadata_cleaner/x.jpg'')
     = handler_temp_folder (new_handler (sample_cleaner True True)) @ ''/'' @ ''x.jpg''"
    by (simp add: sample_event_def new_handler_def sample_cleaner_def staging_folder_def join_def)
  show ?thesis
    using i h staged_events_discarded [OF h] by simp
qed

subsection \<open>C9: the name of the staging file\<close>

text \<open>
  C9, as amended. The claim says that two distinct source paths never share a staging
  path. The staging path is the staging folder joined with the base name of the source
  path alone, so two source paths share their staging path if and only if they have the
  same base name: files of the same name in different folders collide.
\<close>

theorem temp_file_collision:
  "temp_file_of T p1 = temp_file_of T p2 \<longleftrightarrow> basename p1 = basename p2"
  by (simp add: temp_file_of_def join_inject basename_no_sep)

text \<open>C9, witness: two files of different names in one folder are staged apart.\<close>

theorem temp_file_collision_witness:
  "temp_file_of (staging_folder ''/w'') ''/w/a/x.jpg''
     \<noteq> temp_file_of (staging_folder ''/w'') ''/w/a/y.jpg''"
  using temp_file_collision [of "staging_folder ''/w''" "''/w/a/x.jpg''" "''/w/a/y.jpg''"]
  by (simp add: basename_def)

text \<open>
  C9, counterexample: \<^verbatim>\<open>/w/a/x.jpg\<close> and \<^verbatim>\<open>/w/b/x.jpg\<close> are distinct and have the same
  staging path.
\<close>

theorem temp_file_counterexample:
  "''/w/a/x.jpg'' \<noteq> ''/w/b/x.jpg''
   \<and> temp_file_of (staging_folder ''/w'') ''/w/a/x.jpg''
     = temp_file_of (staging_folder ''/w'') ''/w/b/x.jpg''"
  by (simp add: temp_file_of_def staging_folder_def join_def basename_def)

subsection \<open>C10: inspection and redaction never raise\<close>

text \<open>
  C10, as amended. \<^verbatim>\<open>has_metadata\<close> and \<^verbatim>\<open>clean_metadata\<close> return normally on every
  path, whatever the collaborators do: no exception reaches the caller, and the journal
  grows by the exceptions raised inside the call and by nothing else. For
  \<^verbatim>\<open>has_metadata\<close>, a call in which an exception was raised returns \<open>False\<close> with an
  empty dictionary. For \<^verbatim>\<open>clean_metadata\<close> the claim says the same with \<open>False\<close>; that
  holds for an exception raised after the step with \<^verbatim>\<open>exiftool\<close> (in the branch by
  file type). An exception raised in the step with \<^verbatim>\<open>exiftool\<close> is logged and the
  branch by file type decides the result, which can be \<open>True\<close>.
\<close>

theorem inspect_and_redact_total:
  "\<not> isl (fst (has_metadata E c p w))
   \<and> \<not> isl (fst (clean_metadata E c p w))
   \<and> (\<exists>es. journal (snd (has_metadata E c p w)) = journal w @ map Raise es)
   \<and> (\<exists>es. journal (snd (clean_metadata E c p w)) = journal w @ map Raise es)
   \<and> (journal (snd (has_metadata E c p w)) \<noteq> journal w \<longrightarrow>
        fst (has_metadata E c p w) = Inr (False, []))
   \<and> (journal (snd (clean_metadata E c p w))
         \<noteq> journal (snd (exiftool_step E c p (temp_file_of (temp_folder c) p) w)) \<longrightarrow>
        fst (clean_metadata E c p w) = Inr False)"
proof -
  have th: "total (has_metadata E c p)" unfolding has_metadata_def by (rule total_try)
  have tc: "total (clean_metadata E c p)" unfolding clean_metadata_def by (rule total_try)
  from th have 1: "\<not> isl (fst (has_metadata E c p w))" by (simp add: total_def)
  from tc have 2: "\<not> isl (fst (clean_metadata E c p w))" by (simp add: total_def)
  note 3 = tracked_journal [OF has_metadata_tracked, of E c p w]
  note 4 = tracked_journal [OF clean_metadata_tracked, of E c p w]
  have 5: "journal (snd (has_metadata E c p w)) \<noteq> journal w \<longrightarrow>
        fst (has_metadata E c p w) = Inr (False, [])"
    using tracked_result [OF has_metadata_tracked th] by blast
  have 6: "journal (snd (clean_metadata E c p w))
         \<noteq> journal (snd (exiftool_step E c p (temp_file_of (temp_folder c) p) w)) \<longrightarrow>
        fst (clean_metadata E c p w) = Inr False"
    using clean_metadata_after_exiftool_step by blast
  from 1 2 3 4 5 6 show ?thesis by blast
qed

text \<open>
  C10, witness: every external process raises \<^verbatim>\<open>OSError\<close>. The inspection of a PDF
  with \<^verbatim>\<open>exiftool\<close> available gives \<open>False\<close> and an empty dictionary; its redaction
  with only \<^verbatim>\<open>qpdf\<close> available gives \<open>False\<close>.
\<close>

theorem inspect_and_redact_total_witness:
  "journal (snd (has_metadata (sample_env (Inl OSError) [] (Inl OSError)) (sample_cleaner True True)
                   ''/w/a/report.pdf'' sample_world)) \<noteq> journal sample_world
   \<and> fst (has_metadata (sample_env (Inl OSError) [] (Inl OSError)) (sample_cleaner True True)
            ''/w/a/report.pdf'' sample_world) = Inr (False, [])
   \<and> journal (snd (clean_metadata (sample_env (Inl OSError) [] (Inl OSError))
                   (sample_cleaner False True) ''/w/a/report.pdf'' sample_world))
       \<noteq> journal (snd (exiftool_step (sample_env (Inl OSError) [] (Inl OSError))
                   (sample_cleaner False True) ''/w/a/report.pdf''
                   (temp_file_of (temp_folder (sample_cleaner False True)) ''/w/a/report.pdf'')
                   sample_world))
   \<and> fst (clean_metadata (sample_env (Inl OSError) [] (Inl OSError)) (sample_cleaner False True)
            ''/w/a/report.pdf'' sample_world) = Inr False"
proof -
  let ?E = "sample_env (Inl OSError) [] (Inl OSError)"
  have j1: "journal (snd (has_metadata ?E (sample_cleaner True True)
                   ''/w/a/report.pdf'' sample_world)) \<noteq> journal sample_world"
    by (simp add: has_metadata_def has_metadata_body_def get_metadata_with_exiftool_def
        io_simps tool_available_def sample_cleaner_def sample_env_def sample_subprocess_def
        on_files_def lift_def sample_world_def)
  have j2: "journal (snd (clean_metadata ?E (sample_cleaner False True)
                   ''/w/a/report.pdf'' sample_world))
       \<noteq> journal (snd (exiftool_step ?E (sample_cleaner False True) ''/w/a/report.pdf''
                   (temp_file_of (temp_folder (sample_cleaner False True)) ''/w/a/report.pdf'')
                   sample_world))"
    by (simp add: clean_metadata_def clean_metadata_body_def exiftool_step_def
        fallback_step_def pdf_step_def sample_report_ext
        io_simps tool_available_def sample_cleaner_def sample_env_def sample_subprocess_def
        on_files_def lift_def sample_world_def)
  from j1 j2
    inspect_and_redact_total [of ?E "sample_cleaner True True" "''/w/a/report.pdf''" sample_world]
    inspect_and_redact_total [of ?E "sample_cleaner False True" "''/w/a/report.pdf''" sample_world]
  show ?thesis by blast
qed

text \<open>
  C10, counterexample: the invocation of \<^verbatim>\<open>exiftool\<close> raises \<^verbatim>\<open>OSError\<close>, \<^verbatim>\<open>qpdf\<close> then
  exits with status 0; an exception was raised inside the call and the redaction
  returns \<open>True\<close>.
\<close>

theorem redact_exception_counterexample:
  "fst (clean_metadata (sample_env (Inl OSError) [] (Inr 0)) (sample_cleaner True True)
          ''/w/a/report.pdf'' sample_world) = Inr True
   \<and> journal (snd (clean_metadata (sample_env (Inl OSError) [] (Inr 0)) (sample_cleaner True True)
          ''/w/a/report.pdf'' sample_world)) = [Raise OSError]"
  by code_simp

end
